theory Spec2Isabelle
  imports Main
begin

section \<open>Python values and exceptions\<close>

text \<open>
  The parser of \<^verbatim>\<open>main.py\<close> works on the dynamically typed trees returned by
  \<^verbatim>\<open>json.loads\<close>. A tree is a value of \<open>'f json\<close>; \<open>'f\<close> is the carrier of Python's
  \<^verbatim>\<open>float\<close>, about which nothing is assumed. A string is a list of characters, each
  standing for one code point below 256. A \<^verbatim>\<open>dict\<close> keeps its items in order, and its
  keys are distinct.
\<close>

datatype 'f json =
    JNull
  | JBool bool
  | JInt int
  | JFloat 'f
  | JStr string
  | JArr "'f json list"
  | JObj "(string \<times> 'f json) list"

text \<open>
  Every \<^verbatim>\<open>raise\<close> of the source and every exception of a built-in operation is a
  value. \<open>ValueError\<close> carries its message, \<open>HTTPException\<close> its status code and detail.
\<close>

datatype exn =
    IndexError
  | KeyError
  | AttributeError
  | TypeError
  | OverflowError
  | RecursionError
  | ValidationError
  | JSONDecodeError
  | ValueError string
  | HTTPException nat string

definition bindE :: "exn + 'a \<Rightarrow> ('a \<Rightarrow> exn + 'b) \<Rightarrow> exn + 'b" where
  "bindE x f = (case x of Inl e \<Rightarrow> Inl e | Inr a \<Rightarrow> f a)"

fun mapE :: "('a \<Rightarrow> exn + 'b) \<Rightarrow> 'a list \<Rightarrow> exn + 'b list" where
  "mapE f [] = Inr []"
| "mapE f (x # xs) =
     (case f x of
        Inl e \<Rightarrow> Inl e
      | Inr y \<Rightarrow> (case mapE f xs of Inl e \<Rightarrow> Inl e | Inr ys \<Rightarrow> Inr (y # ys)))"

section \<open>Data models\<close>

text \<open>The pydantic models of \<^verbatim>\<open>main.py\<close>, lines 36 to 99, field for field.\<close>

record FileMetadata =
  file_id :: string
  file_name :: string
  size_bytes :: int
  upload_time :: string
  processing_status :: string
  error_message :: "string option"
  processed_at :: "string option"

record 'f RunnerBSP =
  near_price :: "'f option"
  far_price :: "'f option"
  actual_sp :: "'f option"
  back_stake_taken :: "'f list list"
  lay_liability_taken :: "'f list list"

record 'f RunnerEX =
  available_to_back :: "'f list list"
  available_to_lay :: "'f list list"
  traded_volume :: "'f list list"

record 'f Runner =
  selection_id :: int
  runner_name :: string
  status :: string
  bsp :: "'f RunnerBSP"
  ex :: "'f RunnerEX"
  last_price_traded :: "'f option"
  adjustment_factor :: "'f option"

record 'f Market =
  market_id :: string
  market_name :: string
  market_type :: string
  event_id :: "string option"
  event_name :: "string option"
  event_date :: "string option"
  country_code :: "string option"
  market_status :: string
  inplay :: bool
  total_matched :: 'f
  total_available :: 'f
  number_of_runners :: int
  number_of_winners :: int
  publish_time :: "string option"
  version :: "int option"
  runners :: "'f Runner list"

record ProcessingStats =
  total_records :: int
  total_runners :: int
  processing_time_ms :: int
  compressed_size_bytes :: int
  decompressed_size_bytes :: int

record 'f FileParseResponse =
  file_metadata :: FileMetadata
  markets :: "'f Market list"
  processing_stats :: ProcessingStats

record ExportRequest =
  format :: string
  include_prices :: bool
  runner_filter :: "int list option"

section \<open>The libraries the source calls\<close>

text \<open>
  What the source takes from the standard library, from \<^verbatim>\<open>bz2\<close>, \<^verbatim>\<open>json\<close> and
  pydantic is a parameter of the model:
  \<^item> \<open>bz2_utf8\<close> is \<^verbatim>\<open>bz2.decompress(b).decode('utf-8')\<close>, \<open>Inl\<close> the message of the
    exception it raises;
  \<^item> \<open>json_loads\<close> is \<^verbatim>\<open>json.loads\<close> on a string, \<open>Inl\<close> the exception it raises:
    \<^verbatim>\<open>JSONDecodeError\<close> on a string that is no JSON, and others on some strings that are
    (a plain \<^verbatim>\<open>ValueError\<close> on an integer of more than 4300 digits, \<^verbatim>\<open>RecursionError\<close> on
    deep nesting);
  \<^item> \<open>exn_str\<close> is \<^verbatim>\<open>str(e)\<close> on an exception;
  \<^item> \<open>json_dumps\<close> is \<^verbatim>\<open>json.dumps\<close> with its \<^verbatim>\<open>indent\<close>;
  \<^item> \<open>float_of_int\<close> and \<open>float_of_str\<close> are \<^verbatim>\<open>float(x)\<close> on an integer and on a
    string, \<open>None\<close> when it raises; \<open>float_zero\<close> and \<open>float_one\<close> are the literals
    \<^verbatim>\<open>0.0\<close> and \<^verbatim>\<open>1.0\<close>; \<open>float_is_zero\<close> is \<^verbatim>\<open>x == 0\<close>, \<open>float_add\<close> is
    \<^verbatim>\<open>+\<close>, \<open>float_str\<close> is \<^verbatim>\<open>str(x)\<close> and \<open>float_eq\<close> is \<^verbatim>\<open>==\<close> on two floats;
  \<^item> \<open>py_eq\<close> is \<^verbatim>\<open>==\<close> on two decoded values;
  \<^item> \<open>coerce_str\<close>, \<open>coerce_int\<close>, \<open>coerce_float\<close> and \<open>coerce_bool\<close> are what
    pydantic makes of a scalar of another type than the field's (a number for a
    string field, a string for a number field), \<open>None\<close> when it rejects the value, and
    \<open>coerce_dict\<close> is what it makes of a list given for a model;
  \<^item> \<open>model_dict\<close> is \<^verbatim>\<open>FileParseResponse.dict()\<close> and \<open>model_parse\<close> is
    \<^verbatim>\<open>FileParseResponse(**d)\<close>.
\<close>

record 'f pylib =
  bz2_utf8 :: "string \<Rightarrow> string + string"
  json_loads :: "string \<Rightarrow> exn + 'f json"
  exn_str :: "exn \<Rightarrow> string"
  json_dumps :: "nat option \<Rightarrow> 'f json \<Rightarrow> string"
  float_of_int :: "int \<Rightarrow> 'f option"
  float_of_str :: "string \<Rightarrow> 'f option"
  float_zero :: 'f
  float_one :: 'f
  float_is_zero :: "'f \<Rightarrow> bool"
  float_add :: "'f \<Rightarrow> 'f \<Rightarrow> 'f"
  float_str :: "'f \<Rightarrow> string"
  float_eq :: "'f \<Rightarrow> 'f \<Rightarrow> bool"
  py_eq :: "'f json \<Rightarrow> 'f json \<Rightarrow> bool"
  coerce_str :: "'f json \<Rightarrow> string option"
  coerce_int :: "'f json \<Rightarrow> int option"
  coerce_float :: "'f json \<Rightarrow> 'f option"
  coerce_bool :: "'f json \<Rightarrow> bool option"
  coerce_dict :: "'f json \<Rightarrow> (string \<times> 'f json) list option"
  model_dict :: "'f FileParseResponse \<Rightarrow> 'f json"
  model_parse :: "'f json \<Rightarrow> exn + 'f FileParseResponse"

section \<open>Built-in operations on decoded values\<close>

text \<open>\<^verbatim>\<open>d.get(key, default)\<close>: only a \<^verbatim>\<open>dict\<close> has the method.\<close>

fun py_get :: "'f json \<Rightarrow> string \<Rightarrow> 'f json \<Rightarrow> exn + 'f json" where
  "py_get (JObj kvs) k d = Inr (case map_of kvs k of None \<Rightarrow> d | Some v \<Rightarrow> v)"
| "py_get _ k d = Inl AttributeError"

text \<open>
  \<^verbatim>\<open>x[0]\<close>: the first element of a list, the first character of a string, the value
  at key \<^verbatim>\<open>0\<close> of a \<^verbatim>\<open>dict\<close> (whose keys are strings, so there is none).
\<close>

fun py_index0 :: "'f json \<Rightarrow> exn + 'f json" where
  "py_index0 (JArr []) = Inl IndexError"
| "py_index0 (JArr (x # xs)) = Inr x"
| "py_index0 (JStr []) = Inl IndexError"
| "py_index0 (JStr (c # cs)) = Inr (JStr [c])"
| "py_index0 (JObj kvs) = Inl KeyError"
| "py_index0 _ = Inl TypeError"

text \<open>\<^verbatim>\<open>for item in x\<close>: the elements of a list, the characters of a string, the keys of a \<^verbatim>\<open>dict\<close>.\<close>

fun py_iter :: "'f json \<Rightarrow> exn + 'f json list" where
  "py_iter (JArr xs) = Inr xs"
| "py_iter (JStr s) = Inr (map (\<lambda>c. JStr [c]) s)"
| "py_iter (JObj kvs) = Inr (map (\<lambda>kv. JStr (fst kv)) kvs)"
| "py_iter _ = Inl TypeError"

text \<open>The truth value of \<^verbatim>\<open>x\<close> in \<^verbatim>\<open>if not x\<close>.\<close>

fun py_truthy :: "'f pylib \<Rightarrow> 'f json \<Rightarrow> bool" where
  "py_truthy lib JNull = False"
| "py_truthy lib (JBool b) = b"
| "py_truthy lib (JInt n) = (n \<noteq> 0)"
| "py_truthy lib (JFloat x) = (\<not> float_is_zero lib x)"
| "py_truthy lib (JStr s) = (s \<noteq> [])"
| "py_truthy lib (JArr xs) = (xs \<noteq> [])"
| "py_truthy lib (JObj kvs) = (kvs \<noteq> [])"

text \<open>\<^verbatim>\<open>float(item)\<close>.\<close>

fun py_float :: "'f pylib \<Rightarrow> 'f json \<Rightarrow> exn + 'f" where
  "py_float lib (JFloat x) = Inr x"
| "py_float lib (JInt n) =
     (case float_of_int lib n of None \<Rightarrow> Inl OverflowError | Some x \<Rightarrow> Inr x)"
| "py_float lib (JBool b) =
     (case float_of_int lib (if b then 1 else 0) of None \<Rightarrow> Inl OverflowError | Some x \<Rightarrow> Inr x)"
| "py_float lib (JStr s) =
     (case float_of_str lib s of
        None \<Rightarrow> Inl (ValueError ''could not convert string to float'')
      | Some x \<Rightarrow> Inr x)"
| "py_float lib _ = Inl TypeError"

section \<open>Field validation of the models\<close>

text \<open>
  A model's constructor validates every field against its annotation. A value of the
  field's own type is kept; \<^verbatim>\<open>None\<close>, a list and a \<^verbatim>\<open>dict\<close> are rejected by a scalar
  field; what happens to a scalar of another type is the library's coercion.
\<close>

fun str_validator :: "'f pylib \<Rightarrow> 'f json \<Rightarrow> exn + string" where
  "str_validator lib (JStr s) = Inr s"
| "str_validator lib JNull = Inl ValidationError"
| "str_validator lib (JArr xs) = Inl ValidationError"
| "str_validator lib (JObj kvs) = Inl ValidationError"
| "str_validator lib v =
     (case coerce_str lib v of None \<Rightarrow> Inl ValidationError | Some s \<Rightarrow> Inr s)"

fun int_validator :: "'f pylib \<Rightarrow> 'f json \<Rightarrow> exn + int" where
  "int_validator lib (JInt n) = Inr n"
| "int_validator lib JNull = Inl ValidationError"
| "int_validator lib (JArr xs) = Inl ValidationError"
| "int_validator lib (JObj kvs) = Inl ValidationError"
| "int_validator lib v =
     (case coerce_int lib v of None \<Rightarrow> Inl ValidationError | Some n \<Rightarrow> Inr n)"

fun float_validator :: "'f pylib \<Rightarrow> 'f json \<Rightarrow> exn + 'f" where
  "float_validator lib (JFloat x) = Inr x"
| "float_validator lib (JInt n) =
     (case float_of_int lib n of None \<Rightarrow> Inl OverflowError | Some x \<Rightarrow> Inr x)"
| "float_validator lib JNull = Inl ValidationError"
| "float_validator lib (JArr xs) = Inl ValidationError"
| "float_validator lib (JObj kvs) = Inl ValidationError"
| "float_validator lib v =
     (case coerce_float lib v of None \<Rightarrow> Inl ValidationError | Some x \<Rightarrow> Inr x)"

fun bool_validator :: "'f pylib \<Rightarrow> 'f json \<Rightarrow> exn + bool" where
  "bool_validator lib (JBool b) = Inr b"
| "bool_validator lib JNull = Inl ValidationError"
| "bool_validator lib (JArr xs) = Inl ValidationError"
| "bool_validator lib (JObj kvs) = Inl ValidationError"
| "bool_validator lib v =
     (case coerce_bool lib v of None \<Rightarrow> Inl ValidationError | Some b \<Rightarrow> Inr b)"

text \<open>\<^verbatim>\<open>Optional[T]\<close>: \<^verbatim>\<open>None\<close> is kept, anything else is validated as a \<^verbatim>\<open>T\<close>.\<close>

definition optional :: "('f json \<Rightarrow> exn + 'a) \<Rightarrow> 'f json \<Rightarrow> exn + 'a option" where
  "optional validator v =
     (if v = JNull then Inr None else bindE (validator v) (\<lambda>x. Inr (Some x)))"

text \<open>\<^verbatim>\<open>List[List[float]]\<close> on a list of lists of decoded values.\<close>

definition ladder_validator :: "'f pylib \<Rightarrow> 'f json list list \<Rightarrow> exn + 'f list list" where
  "ladder_validator lib rows = mapE (mapE (float_validator lib)) rows"

section \<open>Constructors of the models\<close>

text \<open>
  \<^verbatim>\<open>RunnerBSP(...)\<close>, \<^verbatim>\<open>RunnerEX(...)\<close>, \<^verbatim>\<open>Runner(...)\<close> and \<^verbatim>\<open>Market(...)\<close> as
  \<^verbatim>\<open>extract_market_data\<close> calls them: every keyword argument goes through the validator
  of its field, and the first rejected field fails the construction. Arguments that
  are already of the field's type (a model instance, the result of \<^verbatim>\<open>len\<close>, a list of
  models) are taken as they are.
\<close>

definition new_RunnerBSP ::
  "'f pylib \<Rightarrow> 'f json \<Rightarrow> 'f json \<Rightarrow> 'f json \<Rightarrow> 'f json list list \<Rightarrow> 'f json list list
     \<Rightarrow> exn + 'f RunnerBSP" where
  "new_RunnerBSP lib n f l bst lst =
     bindE (optional (float_validator lib) n) (\<lambda>near.
     bindE (optional (float_validator lib) f) (\<lambda>far.
     bindE (optional (float_validator lib) l) (\<lambda>actual.
     bindE (ladder_validator lib bst) (\<lambda>back.
     bindE (ladder_validator lib lst) (\<lambda>lay.
     Inr \<lparr>near_price = near, far_price = far, actual_sp = actual,
          back_stake_taken = back, lay_liability_taken = lay\<rparr>)))))"

definition new_RunnerEX ::
  "'f pylib \<Rightarrow> 'f json list list \<Rightarrow> 'f json list list \<Rightarrow> 'f json list list
     \<Rightarrow> exn + 'f RunnerEX" where
  "new_RunnerEX lib atb atl tv =
     bindE (ladder_validator lib atb) (\<lambda>back.
     bindE (ladder_validator lib atl) (\<lambda>lay.
     bindE (ladder_validator lib tv) (\<lambda>traded.
     Inr \<lparr>available_to_back = back, available_to_lay = lay, traded_volume = traded\<rparr>)))"

definition new_Runner ::
  "'f pylib \<Rightarrow> 'f json \<Rightarrow> 'f json \<Rightarrow> 'f json \<Rightarrow> 'f RunnerBSP \<Rightarrow> 'f RunnerEX \<Rightarrow> 'f json
     \<Rightarrow> 'f json \<Rightarrow> exn + 'f Runner" where
  "new_Runner lib sel name st b e ltp af =
     bindE (int_validator lib sel) (\<lambda>sel'.
     bindE (str_validator lib name) (\<lambda>name'.
     bindE (str_validator lib st) (\<lambda>st'.
     bindE (optional (float_validator lib) ltp) (\<lambda>ltp'.
     bindE (optional (float_validator lib) af) (\<lambda>af'.
     Inr \<lparr>selection_id = sel', runner_name = name', status = st', bsp = b, ex = e,
          last_price_traded = ltp', adjustment_factor = af'\<rparr>)))))"

definition new_Market ::
  "'f pylib \<Rightarrow> 'f json \<Rightarrow> 'f json \<Rightarrow> 'f json \<Rightarrow> 'f json \<Rightarrow> 'f json \<Rightarrow> 'f json \<Rightarrow> 'f json
     \<Rightarrow> 'f json \<Rightarrow> 'f json \<Rightarrow> 'f json \<Rightarrow> 'f json \<Rightarrow> int \<Rightarrow> 'f json \<Rightarrow> 'f json \<Rightarrow> 'f json
     \<Rightarrow> 'f Runner list \<Rightarrow> exn + 'f Market" where
  "new_Market lib mid mname mtype eid ename edate cc mstatus inp tm ta nrunners nwinners
       ptime ver rs =
     bindE (str_validator lib mid) (\<lambda>mid'.
     bindE (str_validator lib mname) (\<lambda>mname'.
     bindE (str_validator lib mtype) (\<lambda>mtype'.
     bindE (optional (str_validator lib) eid) (\<lambda>eid'.
     bindE (optional (str_validator lib) ename) (\<lambda>ename'.
     bindE (optional (str_validator lib) edate) (\<lambda>edate'.
     bindE (optional (str_validator lib) cc) (\<lambda>cc'.
     bindE (str_validator lib mstatus) (\<lambda>mstatus'.
     bindE (bool_validator lib inp) (\<lambda>inp'.
     bindE (float_validator lib tm) (\<lambda>tm'.
     bindE (float_validator lib ta) (\<lambda>ta'.
     bindE (int_validator lib nwinners) (\<lambda>nwinners'.
     bindE (optional (str_validator lib) ptime) (\<lambda>ptime'.
     bindE (optional (int_validator lib) ver) (\<lambda>ver'.
     Inr \<lparr>market_id = mid', market_name = mname', market_type = mtype',
          event_id = eid', event_name = ename', event_date = edate', country_code = cc',
          market_status = mstatus', inplay = inp', total_matched = tm',
          total_available = ta', number_of_runners = nrunners,
          number_of_winners = nwinners', publish_time = ptime', version = ver',
          runners = rs\<rparr>))))))))))))))"

section \<open>The normalizer: \<^verbatim>\<open>BetfairDataParser.extract_market_data\<close>\<close>

text \<open>
  \<^verbatim>\<open>_format_price_stakes\<close> (lines 257 to 264): a falsy argument gives the empty list;
  otherwise every item that is a list is copied and any other item becomes
  \<^verbatim>\<open>[float(item), 0.0]\<close>.
\<close>

definition format_item :: "'f pylib \<Rightarrow> 'f json \<Rightarrow> exn + 'f json list" where
  "format_item lib item =
     (case item of
        JArr xs \<Rightarrow> Inr xs
      | _ \<Rightarrow> bindE (py_float lib item) (\<lambda>x. Inr [JFloat x, JFloat (float_zero lib)]))"

definition format_price_stakes :: "'f pylib \<Rightarrow> 'f json \<Rightarrow> exn + 'f json list list" where
  "format_price_stakes lib raw_data =
     (if \<not> py_truthy lib raw_data then Inr []
      else bindE (py_iter raw_data) (mapE (format_item lib)))"

text \<open>
  Lines 187 to 192: the scan of the catalogue runners for the name of a selection. The
  scan stops at the first entry whose \<^verbatim>\<open>selectionId\<close> equals the selection.
\<close>

fun scan_catalogue :: "'f pylib \<Rightarrow> 'f json \<Rightarrow> 'f json list \<Rightarrow> exn + 'f json" where
  "scan_catalogue lib sel [] = Inr (JStr ''Unknown'')"
| "scan_catalogue lib sel (rc # rcs) =
     (case py_get rc ''selectionId'' JNull of
        Inl e \<Rightarrow> Inl e
      | Inr v \<Rightarrow>
          if py_eq lib v sel then py_get rc ''runnerName'' (JStr ''Unknown'')
          else scan_catalogue lib sel rcs)"

text \<open>Lines 183 to 233: the body of the loop over the runner books.\<close>

definition extract_runner :: "'f pylib \<Rightarrow> 'f json \<Rightarrow> 'f json \<Rightarrow> exn + 'f Runner" where
  "extract_runner lib market_catalogue runner_book =
     bindE (py_get runner_book ''id'' JNull) (\<lambda>sel.
     bindE (py_get runner_book ''status'' (JStr ''ACTIVE'')) (\<lambda>st.
     bindE (py_get market_catalogue ''runners'' (JArr [])) (\<lambda>runner_catalogue.
     bindE (py_iter runner_catalogue) (\<lambda>rcs.
     bindE (scan_catalogue lib sel rcs) (\<lambda>name.
     bindE (py_get runner_book ''sp'' (JObj [])) (\<lambda>bsp_data.
     bindE (py_get bsp_data ''n'' JNull) (\<lambda>n.
     bindE (py_get bsp_data ''f'' JNull) (\<lambda>f.
     bindE (py_get bsp_data ''l'' JNull) (\<lambda>l.
     bindE (py_get bsp_data ''bst'' (JArr [])) (\<lambda>bst_raw.
     bindE (format_price_stakes lib bst_raw) (\<lambda>bst.
     bindE (py_get bsp_data ''lst'' (JArr [])) (\<lambda>lst_raw.
     bindE (format_price_stakes lib lst_raw) (\<lambda>lst.
     bindE (new_RunnerBSP lib n f l bst lst) (\<lambda>b.
     bindE (py_get runner_book ''ex'' (JObj [])) (\<lambda>ex_data.
     bindE (py_get ex_data ''atb'' (JArr [])) (\<lambda>atb_raw.
     bindE (format_price_stakes lib atb_raw) (\<lambda>atb.
     bindE (py_get ex_data ''atl'' (JArr [])) (\<lambda>atl_raw.
     bindE (format_price_stakes lib atl_raw) (\<lambda>atl.
     bindE (py_get ex_data ''tv'' (JArr [])) (\<lambda>tv_raw.
     bindE (format_price_stakes lib tv_raw) (\<lambda>tv.
     bindE (new_RunnerEX lib atb atl tv) (\<lambda>e.
     bindE (py_get runner_book ''ltp'' JNull) (\<lambda>ltp.
     bindE (py_get runner_book ''adjustmentFactor'' (JFloat (float_one lib))) (\<lambda>af.
     new_Runner lib sel name st b e ltp af))))))))))))))))))))))))"

text \<open>Lines 179 to 234: the loop, appending to \<^verbatim>\<open>runners\<close>.\<close>

fun extract_runners ::
  "'f pylib \<Rightarrow> 'f json \<Rightarrow> 'f json list \<Rightarrow> 'f Runner list \<Rightarrow> exn + 'f Runner list" where
  "extract_runners lib market_catalogue [] acc = Inr acc"
| "extract_runners lib market_catalogue (runner_book # rest) acc =
     (case extract_runner lib market_catalogue runner_book of
        Inl e \<Rightarrow> Inl e
      | Inr runner \<Rightarrow> extract_runners lib market_catalogue rest (acc @ [runner]))"

text \<open>Lines 153 to 255.\<close>

definition extract_market_data :: "'f pylib \<Rightarrow> 'f json \<Rightarrow> exn + 'f Market" where
  "extract_market_data lib stream_data =
     bindE (py_get stream_data ''mc'' (JArr [JObj []])) (\<lambda>mc.
     bindE (py_index0 mc) (\<lambda>mc0.
     bindE (py_get mc0 ''id'' (JStr ''UNKNOWN'')) (\<lambda>mid.
     bindE (py_get stream_data ''marketDefinition'' (JObj [])) (\<lambda>market_definition.
     bindE (py_get market_definition ''name'' (JStr ''Unknown Market'')) (\<lambda>def_name.
     bindE (py_get market_definition ''marketType'' (JStr ''UNKNOWN'')) (\<lambda>mtype.
     bindE (py_get market_definition ''event'' (JObj [])) (\<lambda>event.
     bindE (py_get event ''id'' (JStr [])) (\<lambda>eid.
     bindE (py_get event ''name'' (JStr [])) (\<lambda>ename.
     bindE (py_get event ''openDate'' (JStr [])) (\<lambda>edate.
     bindE (py_get event ''countryCode'' (JStr [])) (\<lambda>cc.
     bindE (py_get stream_data ''marketCatalogue'' (JObj [])) (\<lambda>market_catalogue.
     bindE (if \<not> py_truthy lib def_name \<or> def_name = JStr ''Unknown Market''
            then py_get market_catalogue ''marketName'' def_name
            else Inr def_name) (\<lambda>mname.
     bindE (py_get stream_data ''mc'' (JArr [JObj []])) (\<lambda>mc'.
     bindE (py_index0 mc') (\<lambda>market_book.
     bindE (py_get market_definition ''status'' (JStr ''UNKNOWN'')) (\<lambda>mstatus.
     bindE (py_get market_definition ''inPlay'' (JBool False)) (\<lambda>inp.
     bindE (py_get market_book ''tv'' (JFloat (float_zero lib))) (\<lambda>tm.
     bindE (py_get market_book ''totalAvailable'' (JFloat (float_zero lib))) (\<lambda>ta.
     bindE (py_get market_book ''runners'' (JArr [])) (\<lambda>runner_books.
     bindE (py_iter runner_books) (\<lambda>rbs.
     bindE (extract_runners lib market_catalogue rbs []) (\<lambda>rs.
     bindE (py_get market_definition ''numberOfWinners'' (JInt 1)) (\<lambda>nwinners.
     bindE (py_get stream_data ''publishTime'' JNull) (\<lambda>ptime.
     bindE (py_get stream_data ''version'' JNull) (\<lambda>ver.
     new_Market lib mid mname mtype eid ename edate cc mstatus inp tm ta
       (int (length rs)) nwinners ptime ver rs)))))))))))))))))))))))))"

section \<open>The decoder: \<^verbatim>\<open>decompress_bz2\<close> and \<^verbatim>\<open>parse_json_stream\<close>\<close>

text \<open>Lines 129 to 136: any failure of the library is raised again as a \<^verbatim>\<open>ValueError\<close>.\<close>

definition decompress_bz2 :: "'f pylib \<Rightarrow> string \<Rightarrow> exn + string" where
  "decompress_bz2 lib file_content =
     (case bz2_utf8 lib file_content of
        Inl msg \<Rightarrow> Inl (ValueError (''Failed to decompress file: '' @ msg))
      | Inr text \<Rightarrow> Inr text)"

text \<open>
  The characters that \<^verbatim>\<open>str.strip()\<close> removes, among the code points below 256: tab, line
  feed, vertical tab, form feed, carriage return, the four separators 0x1C to 0x1F, space,
  next line (0x85) and no-break space (0xA0).
\<close>

definition py_isspace :: "char \<Rightarrow> bool" where
  "py_isspace c \<longleftrightarrow>
     c \<in> set [CHR 0x09, CHR 0x0A, CHR 0x0B, CHR 0x0C, CHR 0x0D, CHR 0x1C, CHR 0x1D, CHR 0x1E,
              CHR 0x1F, CHR 0x20, CHR 0x85, CHR 0xA0]"

definition py_strip :: "string \<Rightarrow> string" where
  "py_strip s = rev (dropWhile py_isspace (rev (dropWhile py_isspace s)))"

text \<open>\<^verbatim>\<open>s.split('\n')\<close>: one more piece than there are line feeds.\<close>

fun py_split_lines :: "string \<Rightarrow> string list" where
  "py_split_lines [] = [[]]"
| "py_split_lines (c # cs) =
     (if c = CHR 0x0A then [] # py_split_lines cs
      else (case py_split_lines cs of [] \<Rightarrow> [[c]] | l # ls \<Rightarrow> (c # l) # ls))"

text \<open>
  Lines 141 to 150: the loop over the lines, appending to \<^verbatim>\<open>records\<close>. A blank line is
  passed over. The handler of line 147 catches \<^verbatim>\<open>json.JSONDecodeError\<close> and nothing else:
  a line on which \<^verbatim>\<open>json.loads\<close> raises it is logged and passed over, and any other
  exception of \<^verbatim>\<open>json.loads\<close> leaves the loop and the function.
\<close>

fun parse_lines :: "'f pylib \<Rightarrow> string list \<Rightarrow> 'f json list \<Rightarrow> exn + 'f json list" where
  "parse_lines lib [] records = Inr records"
| "parse_lines lib (line # rest) records =
     (if py_strip line \<noteq> [] then
        (case json_loads lib line of
           Inr r \<Rightarrow> parse_lines lib rest (records @ [r])
         | Inl JSONDecodeError \<Rightarrow> parse_lines lib rest records
         | Inl e \<Rightarrow> Inl e)
      else parse_lines lib rest records)"

definition parse_json_stream :: "'f pylib \<Rightarrow> string \<Rightarrow> exn + 'f json list" where
  "parse_json_stream lib content = parse_lines lib (py_split_lines (py_strip content)) []"

section \<open>The batch driver: \<^verbatim>\<open>BetfairDataParser.parse_file\<close>\<close>

text \<open>
  What \<^verbatim>\<open>parse_file\<close> reads from its environment: the identifier drawn by \<^verbatim>\<open>uuid.uuid4\<close>,
  the two readings of \<^verbatim>\<open>datetime.utcnow().isoformat()\<close> and the elapsed time
  \<^verbatim>\<open>int((time.time() - start_time) * 1000)\<close>.
\<close>

record sysenv =
  uuid4 :: string
  utcnow_upload :: string
  utcnow_processed :: string
  elapsed_ms :: int

text \<open>The length of \<^verbatim>\<open>s.encode('utf-8')\<close> for code points below 256.\<close>

definition utf8_length :: "string \<Rightarrow> int" where
  "utf8_length s = sum_list (map (\<lambda>c. if (of_char c :: nat) < 128 then 1 else 2) s)"

text \<open>
  Lines 298 to 305: the loop over the records. A record on which \<^verbatim>\<open>extract_market_data\<close>
  raises is logged and passed over.
\<close>

fun extract_records ::
  "'f pylib \<Rightarrow> 'f json list \<Rightarrow> 'f Market list \<Rightarrow> int \<Rightarrow> 'f Market list \<times> int" where
  "extract_records lib [] ms n = (ms, n)"
| "extract_records lib (r # rest) ms n =
     (case extract_market_data lib r of
        Inr market \<Rightarrow> extract_records lib rest (ms @ [market]) (n + int (length (runners market)))
      | Inl e \<Rightarrow> extract_records lib rest ms n)"

text \<open>
  Lines 267 to 336. An exception of \<^verbatim>\<open>parse_json_stream\<close> is raised again as the
  \<^verbatim>\<open>ValueError\<close> of line 286. The loop over the records catches every exception of its
  body and raises none, so the handler around it (line 306) has no branch here.
\<close>

definition parse_file ::
  "'f pylib \<Rightarrow> sysenv \<Rightarrow> string \<Rightarrow> string \<Rightarrow> exn + 'f FileParseResponse" where
  "parse_file lib env file_content fname =
     (let compressed_size = int (length file_content) in
      case decompress_bz2 lib file_content of
        Inl (ValueError msg) \<Rightarrow> Inl (ValueError (''Decompression failed: '' @ msg))
      | Inl e \<Rightarrow> Inl e
      | Inr decompressed_content \<Rightarrow>
          (let decompressed_size = utf8_length decompressed_content in
           case parse_json_stream lib decompressed_content of
             Inl e \<Rightarrow> Inl (ValueError (''JSON parsing failed: '' @ exn_str lib e))
           | Inr records \<Rightarrow>
               if records = [] then Inl (ValueError ''No valid records found in file'')
               else
                 (case extract_records lib records [] 0 of
                    (ms, n) \<Rightarrow>
                      if ms = [] then Inl (ValueError ''No valid markets found in file'')
                      else Inr
                        \<lparr>file_metadata =
                           \<lparr>file_id = uuid4 env, file_name = fname,
                            size_bytes = compressed_size,
                            upload_time = utcnow_upload env @ ''Z'',
                            processing_status = ''completed'',
                            error_message = None,
                            processed_at = Some (utcnow_processed env @ ''Z'')\<rparr>,
                         markets = ms,
                         processing_stats =
                           \<lparr>total_records = int (length records), total_runners = n,
                            processing_time_ms = elapsed_ms env,
                            compressed_size_bytes = compressed_size,
                            decompressed_size_bytes = decompressed_size\<rparr>\<rparr>)))"

section \<open>The exporter: \<^verbatim>\<open>DataExporter\<close> and \<^verbatim>\<open>export_file\<close>\<close>

text \<open>\<^verbatim>\<open>str(n)\<close> for an integer.\<close>

fun str_nat :: "nat \<Rightarrow> string" where
  "str_nat n =
     (if n < 10 then [char_of (48 + n)] else str_nat (n div 10) @ [char_of (48 + n mod 10)])"

definition str_int :: "int \<Rightarrow> string" where
  "str_int i = (if i < 0 then CHR ''-'' # str_nat (nat (- i)) else str_nat (nat i))"

text \<open>\<^verbatim>\<open>sep.join(lines)\<close>.\<close>

fun py_join :: "string \<Rightarrow> string list \<Rightarrow> string" where
  "py_join sep [] = []"
| "py_join sep [x] = x"
| "py_join sep (x # y # ys) = x @ sep @ py_join sep (y # ys)"

text \<open>
  Lines 363 and 364: \<^verbatim>\<open>sum([stake for _, stake in ladder])\<close>, formatted. Every element of the
  ladder is unpacked into two names, which raises unless it has two items; the sum of
  no stake is the integer \<^verbatim>\<open>0\<close>.
\<close>

fun unpack_stake :: "'f list \<Rightarrow> exn + 'f" where
  "unpack_stake [price, stake] = Inr stake"
| "unpack_stake [] = Inl (ValueError ''not enough values to unpack'')"
| "unpack_stake [price] = Inl (ValueError ''not enough values to unpack'')"
| "unpack_stake _ = Inl (ValueError ''too many values to unpack'')"

definition volume_text :: "'f pylib \<Rightarrow> 'f list list \<Rightarrow> exn + string" where
  "volume_text lib ladder =
     bindE (mapE unpack_stake ladder) (\<lambda>stakes.
       Inr (if stakes = [] then ''0''
            else float_str lib (foldl (float_add lib) (float_zero lib) stakes)))"

text \<open>\<^verbatim>\<open>{x or ""}\<close> for an optional float, and \<^verbatim>\<open>{x}\<close> for an optional string.\<close>

definition price_text :: "'f pylib \<Rightarrow> 'f option \<Rightarrow> string" where
  "price_text lib p =
     (case p of
        None \<Rightarrow> []
      | Some x \<Rightarrow> if float_is_zero lib x then [] else float_str lib x)"

definition opt_text :: "string option \<Rightarrow> string" where
  "opt_text s = (case s of None \<Rightarrow> ''None'' | Some t \<Rightarrow> t)"

text \<open>Lines 362 to 375: the row of one runner.\<close>

definition csv_row :: "'f pylib \<Rightarrow> bool \<Rightarrow> 'f Market \<Rightarrow> 'f Runner \<Rightarrow> exn + string" where
  "csv_row lib with_prices market runner =
     (let base = market_id market @ '','' @ market_name market @ '','' @
                 opt_text (event_name market) @ '','' @ str_int (selection_id runner) @ '','' @
                 runner_name runner @ '','' @ status runner
      in if with_prices then
           bindE (volume_text lib (available_to_back (ex runner))) (\<lambda>back_vol.
           bindE (volume_text lib (available_to_lay (ex runner))) (\<lambda>lay_vol.
           Inr (base @ '','' @ price_text lib (last_price_traded runner) @ '','' @
                price_text lib (near_price (bsp runner)) @ '','' @
                price_text lib (far_price (bsp runner)) @ '','' @
                price_text lib (actual_sp (bsp runner)) @ '','' @
                back_vol @ '','' @ lay_vol)))
         else Inr base)"

text \<open>Lines 346 to 379.\<close>

definition to_csv :: "'f pylib \<Rightarrow> 'f Market list \<Rightarrow> bool \<Rightarrow> exn + string" where
  "to_csv lib ms with_prices =
     (let header =
        (if with_prices
         then ''Market ID,Market Name,Event Name,Runner ID,Runner Name,Status,'' @
              ''Last Traded,Near Price,Far Price,Actual SP,Back Vol,Lay Vol''
         else ''Market ID,Market Name,Event Name,Runner ID,Runner Name,Status'')
      in bindE (mapE (\<lambda>market. mapE (csv_row lib with_prices market) (runners market)) ms)
           (\<lambda>rows. Inr (py_join [CHR 0x0A] (header # concat rows))))"

text \<open>Lines 382 to 388.\<close>

definition to_json :: "'f pylib \<Rightarrow> 'f FileParseResponse \<Rightarrow> bool \<Rightarrow> string" where
  "to_json lib data pretty =
     (let data_dict = model_dict lib data
      in if pretty then json_dumps lib (Some 2) data_dict else json_dumps lib None data_dict)"

text \<open>\<^verbatim>\<open>str.lower()\<close> on code points below 256.\<close>

definition py_lower_char :: "char \<Rightarrow> char" where
  "py_lower_char c =
     (let n = (of_char c :: nat)
      in if (65 \<le> n \<and> n \<le> 90) \<or> (192 \<le> n \<and> n \<le> 222 \<and> n \<noteq> 215) then char_of (n + 32) else c)"

definition py_lower :: "string \<Rightarrow> string" where
  "py_lower s = map py_lower_char s"

record StreamingResponse =
  content :: string
  media_type :: string
  content_disposition :: string

text \<open>Lines 543 to 562: the body of the \<^verbatim>\<open>try\<close> statement of \<^verbatim>\<open>export_file\<close>.\<close>

definition export_body ::
  "'f pylib \<Rightarrow> string \<Rightarrow> 'f json \<Rightarrow> ExportRequest \<Rightarrow> exn + StreamingResponse" where
  "export_body lib fid file_data request =
     bindE (model_parse lib file_data) (\<lambda>parse_result.
     bindE
       (if py_lower (format request) = ''csv'' then
          bindE (to_csv lib (markets parse_result) (include_prices request)) (\<lambda>c.
            Inr (c, ''text/csv'', fid @ ''.csv''))
        else if py_lower (format request) = ''json'' then
          Inr (to_json lib parse_result True, ''application/json'', fid @ ''.json'')
        else Inl (HTTPException 400 ''Unsupported export format''))
       (\<lambda>(c, mt, filename).
          Inr \<lparr>content = c, media_type = mt,
               content_disposition = ''attachment; filename='' @ filename\<rparr>))"

text \<open>
  Lines 535 to 566. \<open>store\<close> is \<^verbatim>\<open>file_store.get\<close>. The handler of line 564 catches every
  \<^verbatim>\<open>Exception\<close> raised in the body, \<^verbatim>\<open>HTTPException\<close> among them.
\<close>

definition export_file ::
  "'f pylib \<Rightarrow> (string \<Rightarrow> 'f json option) \<Rightarrow> string \<Rightarrow> ExportRequest
     \<Rightarrow> exn + StreamingResponse" where
  "export_file lib store fid request =
     (case store fid of
        None \<Rightarrow> Inl (HTTPException 404 ''File not found'')
      | Some file_data \<Rightarrow>
          if \<not> py_truthy lib file_data then Inl (HTTPException 404 ''File not found'')
          else
            (case export_body lib fid file_data request of
               Inl e \<Rightarrow> Inl (HTTPException 500 ''Export failed'')
             | Inr response \<Rightarrow> Inr response))"

section \<open>The bundle as a document\<close>

text \<open>
  \<^verbatim>\<open>FileParseResponse.dict()\<close>, as pydantic documents it for the models of lines 36 to 94:
  every model becomes a \<^verbatim>\<open>dict\<close> of its fields in the order of their declaration, a list
  stays a list and \<^verbatim>\<open>None\<close> stays \<^verbatim>\<open>None\<close>.
\<close>

definition opt_json :: "('a \<Rightarrow> 'f json) \<Rightarrow> 'a option \<Rightarrow> 'f json" where
  "opt_json f x = (case x of None \<Rightarrow> JNull | Some v \<Rightarrow> f v)"

definition ladder_json :: "'f list list \<Rightarrow> 'f json" where
  "ladder_json rows = JArr (map (\<lambda>row. JArr (map JFloat row)) rows)"

definition metadata_dict :: "FileMetadata \<Rightarrow> 'f json" where
  "metadata_dict md =
     JObj [(''file_id'', JStr (file_id md)),
           (''file_name'', JStr (file_name md)),
           (''size_bytes'', JInt (size_bytes md)),
           (''upload_time'', JStr (upload_time md)),
           (''processing_status'', JStr (processing_status md)),
           (''error_message'', opt_json JStr (error_message md)),
           (''processed_at'', opt_json JStr (processed_at md))]"

definition bsp_dict :: "'f RunnerBSP \<Rightarrow> 'f json" where
  "bsp_dict b =
     JObj [(''near_price'', opt_json JFloat (near_price b)),
           (''far_price'', opt_json JFloat (far_price b)),
           (''actual_sp'', opt_json JFloat (actual_sp b)),
           (''back_stake_taken'', ladder_json (back_stake_taken b)),
           (''lay_liability_taken'', ladder_json (lay_liability_taken b))]"

definition ex_dict :: "'f RunnerEX \<Rightarrow> 'f json" where
  "ex_dict e =
     JObj [(''available_to_back'', ladder_json (available_to_back e)),
           (''available_to_lay'', ladder_json (available_to_lay e)),
           (''traded_volume'', ladder_json (traded_volume e))]"

definition runner_dict :: "'f Runner \<Rightarrow> 'f json" where
  "runner_dict r =
     JObj [(''selection_id'', JInt (selection_id r)),
           (''runner_name'', JStr (runner_name r)),
           (''status'', JStr (status r)),
           (''bsp'', bsp_dict (bsp r)),
           (''ex'', ex_dict (ex r)),
           (''last_price_traded'', opt_json JFloat (last_price_traded r)),
           (''adjustment_factor'', opt_json JFloat (adjustment_factor r))]"

definition market_dict :: "'f Market \<Rightarrow> 'f json" where
  "market_dict m =
     JObj [(''market_id'', JStr (market_id m)),
           (''market_name'', JStr (market_name m)),
           (''market_type'', JStr (market_type m)),
           (''event_id'', opt_json JStr (event_id m)),
           (''event_name'', opt_json JStr (event_name m)),
           (''event_date'', opt_json JStr (event_date m)),
           (''country_code'', opt_json JStr (country_code m)),
           (''market_status'', JStr (market_status m)),
           (''inplay'', JBool (inplay m)),
           (''total_matched'', JFloat (total_matched m)),
           (''total_available'', JFloat (total_available m)),
           (''number_of_runners'', JInt (number_of_runners m)),
           (''number_of_winners'', JInt (number_of_winners m)),
           (''publish_time'', opt_json JStr (publish_time m)),
           (''version'', opt_json JInt (version m)),
           (''runners'', JArr (map runner_dict (runners m)))]"

definition stats_dict :: "ProcessingStats \<Rightarrow> 'f json" where
  "stats_dict st =
     JObj [(''total_records'', JInt (total_records st)),
           (''total_runners'', JInt (total_runners st)),
           (''processing_time_ms'', JInt (processing_time_ms st)),
           (''compressed_size_bytes'', JInt (compressed_size_bytes st)),
           (''decompressed_size_bytes'', JInt (decompressed_size_bytes st))]"


text \<open>
  \<^verbatim>\<open>FileParseResponse(**d)\<close>, as pydantic documents it: every field is looked up by its
  name and validated against its annotation; a field that is missing takes its default
  and is rejected when it has none; a key that names no field is ignored; a model is
  built from a \<^verbatim>\<open>dict\<close>, a list from a list.
\<close>

definition required :: "('f json \<Rightarrow> exn + 'a) \<Rightarrow> 'f json option \<Rightarrow> exn + 'a" where
  "required validator x = (case x of None \<Rightarrow> Inl ValidationError | Some v \<Rightarrow> validator v)"

definition defaulted :: "'a \<Rightarrow> ('f json \<Rightarrow> exn + 'a) \<Rightarrow> 'f json option \<Rightarrow> exn + 'a" where
  "defaulted d validator x = (case x of None \<Rightarrow> Inr d | Some v \<Rightarrow> validator v)"

definition list_validator :: "('f json \<Rightarrow> exn + 'a) \<Rightarrow> 'f json \<Rightarrow> exn + 'a list" where
  "list_validator validator v =
     (case v of JArr xs \<Rightarrow> mapE validator xs | _ \<Rightarrow> Inl ValidationError)"

definition model_fields :: "'f pylib \<Rightarrow> 'f json \<Rightarrow> exn + (string \<times> 'f json) list" where
  "model_fields lib v =
     (case v of
        JObj kvs \<Rightarrow> Inr kvs
      | JArr xs \<Rightarrow>
          (case coerce_dict lib v of None \<Rightarrow> Inl ValidationError | Some kvs \<Rightarrow> Inr kvs)
      | _ \<Rightarrow> Inl ValidationError)"

definition parse_metadata :: "'f pylib \<Rightarrow> 'f json \<Rightarrow> exn + FileMetadata" where
  "parse_metadata lib v =
     bindE (model_fields lib v) (\<lambda>kvs.
     bindE (required (str_validator lib) (map_of kvs ''file_id'')) (\<lambda>a.
     bindE (required (str_validator lib) (map_of kvs ''file_name'')) (\<lambda>b.
     bindE (required (int_validator lib) (map_of kvs ''size_bytes'')) (\<lambda>c.
     bindE (required (str_validator lib) (map_of kvs ''upload_time'')) (\<lambda>d.
     bindE (required (str_validator lib) (map_of kvs ''processing_status'')) (\<lambda>e.
     bindE (defaulted None (optional (str_validator lib)) (map_of kvs ''error_message'')) (\<lambda>f.
     bindE (defaulted None (optional (str_validator lib)) (map_of kvs ''processed_at'')) (\<lambda>g.
     Inr \<lparr>file_id = a, file_name = b, size_bytes = c, upload_time = d,
          processing_status = e, error_message = f, processed_at = g\<rparr>))))))))"

definition parse_ladder :: "'f pylib \<Rightarrow> 'f json \<Rightarrow> exn + 'f list list" where
  "parse_ladder lib = list_validator (list_validator (float_validator lib))"

definition parse_bsp :: "'f pylib \<Rightarrow> 'f json \<Rightarrow> exn + 'f RunnerBSP" where
  "parse_bsp lib v =
     bindE (model_fields lib v) (\<lambda>kvs.
     bindE (defaulted None (optional (float_validator lib)) (map_of kvs ''near_price'')) (\<lambda>a.
     bindE (defaulted None (optional (float_validator lib)) (map_of kvs ''far_price'')) (\<lambda>b.
     bindE (defaulted None (optional (float_validator lib)) (map_of kvs ''actual_sp'')) (\<lambda>c.
     bindE (defaulted [] (parse_ladder lib) (map_of kvs ''back_stake_taken'')) (\<lambda>d.
     bindE (defaulted [] (parse_ladder lib) (map_of kvs ''lay_liability_taken'')) (\<lambda>e.
     Inr \<lparr>near_price = a, far_price = b, actual_sp = c, back_stake_taken = d,
          lay_liability_taken = e\<rparr>))))))"

definition parse_ex :: "'f pylib \<Rightarrow> 'f json \<Rightarrow> exn + 'f RunnerEX" where
  "parse_ex lib v =
     bindE (model_fields lib v) (\<lambda>kvs.
     bindE (defaulted [] (parse_ladder lib) (map_of kvs ''available_to_back'')) (\<lambda>a.
     bindE (defaulted [] (parse_ladder lib) (map_of kvs ''available_to_lay'')) (\<lambda>b.
     bindE (defaulted [] (parse_ladder lib) (map_of kvs ''traded_volume'')) (\<lambda>c.
     Inr \<lparr>available_to_back = a, available_to_lay = b, traded_volume = c\<rparr>))))"

definition parse_runner :: "'f pylib \<Rightarrow> 'f json \<Rightarrow> exn + 'f Runner" where
  "parse_runner lib v =
     bindE (model_fields lib v) (\<lambda>kvs.
     bindE (required (int_validator lib) (map_of kvs ''selection_id'')) (\<lambda>a.
     bindE (required (str_validator lib) (map_of kvs ''runner_name'')) (\<lambda>b.
     bindE (required (str_validator lib) (map_of kvs ''status'')) (\<lambda>c.
     bindE (required (parse_bsp lib) (map_of kvs ''bsp'')) (\<lambda>d.
     bindE (required (parse_ex lib) (map_of kvs ''ex'')) (\<lambda>e.
     bindE (defaulted None (optional (float_validator lib))
              (map_of kvs ''last_price_traded'')) (\<lambda>f.
     bindE (defaulted None (optional (float_validator lib))
              (map_of kvs ''adjustment_factor'')) (\<lambda>g.
     Inr \<lparr>selection_id = a, runner_name = b, status = c, bsp = d, ex = e,
          last_price_traded = f, adjustment_factor = g\<rparr>))))))))"

definition parse_market :: "'f pylib \<Rightarrow> 'f json \<Rightarrow> exn + 'f Market" where
  "parse_market lib v =
     bindE (model_fields lib v) (\<lambda>kvs.
     bindE (required (str_validator lib) (map_of kvs ''market_id'')) (\<lambda>a.
     bindE (required (str_validator lib) (map_of kvs ''market_name'')) (\<lambda>b.
     bindE (required (str_validator lib) (map_of kvs ''market_type'')) (\<lambda>c.
     bindE (defaulted None (optional (str_validator lib)) (map_of kvs ''event_id'')) (\<lambda>d.
     bindE (defaulted None (optional (str_validator lib)) (map_of kvs ''event_name'')) (\<lambda>e.
     bindE (defaulted None (optional (str_validator lib)) (map_of kvs ''event_date'')) (\<lambda>f.
     bindE (defaulted None (optional (str_validator lib)) (map_of kvs ''country_code'')) (\<lambda>g.
     bindE (required (str_validator lib) (map_of kvs ''market_status'')) (\<lambda>h.
     bindE (required (bool_validator lib) (map_of kvs ''inplay'')) (\<lambda>i.
     bindE (required (float_validator lib) (map_of kvs ''total_matched'')) (\<lambda>j.
     bindE (required (float_validator lib) (map_of kvs ''total_available'')) (\<lambda>k.
     bindE (required (int_validator lib) (map_of kvs ''number_of_runners'')) (\<lambda>l.
     bindE (required (int_validator lib) (map_of kvs ''number_of_winners'')) (\<lambda>m.
     bindE (defaulted None (optional (str_validator lib)) (map_of kvs ''publish_time'')) (\<lambda>n.
     bindE (defaulted None (optional (int_validator lib)) (map_of kvs ''version'')) (\<lambda>p.
     bindE (defaulted [] (list_validator (parse_runner lib)) (map_of kvs ''runners'')) (\<lambda>q.
     Inr \<lparr>market_id = a, market_name = b, market_type = c, event_id = d, event_name = e,
          event_date = f, country_code = g, market_status = h, inplay = i,
          total_matched = j, total_available = k, number_of_runners = l,
          number_of_winners = m, publish_time = n, version = p, runners = q\<rparr>)))))))))))))))))"

definition parse_stats :: "'f pylib \<Rightarrow> 'f json \<Rightarrow> exn + ProcessingStats" where
  "parse_stats lib v =
     bindE (model_fields lib v) (\<lambda>kvs.
     bindE (required (int_validator lib) (map_of kvs ''total_records'')) (\<lambda>a.
     bindE (required (int_validator lib) (map_of kvs ''total_runners'')) (\<lambda>b.
     bindE (required (int_validator lib) (map_of kvs ''processing_time_ms'')) (\<lambda>c.
     bindE (required (int_validator lib) (map_of kvs ''compressed_size_bytes'')) (\<lambda>d.
     bindE (required (int_validator lib) (map_of kvs ''decompressed_size_bytes'')) (\<lambda>e.
     Inr \<lparr>total_records = a, total_runners = b, processing_time_ms = c,
          compressed_size_bytes = d, decompressed_size_bytes = e\<rparr>))))))"


section \<open>Equality of two bundles, field for field\<close>












section \<open>A small instance of the libraries and sample inputs\<close>

text \<open>
  The model runs on concrete inputs once the library parameters are fixed. In
  \<open>mini_lib\<close> a float is an integer, decompression is the identity, \<^verbatim>\<open>==\<close> is equality and
  pydantic coerces nothing. Its \<^verbatim>\<open>json.loads\<close> knows the lines \<^verbatim>\<open>{}\<close> and \<^verbatim>\<open>[]\<close> and the
  lines of digits without a leading zero: an integer, or the \<^verbatim>\<open>ValueError\<close> of the
  interpreter for more than 4300 digits; on any other line it raises
  \<^verbatim>\<open>JSONDecodeError\<close>.
\<close>

definition int_limit_message :: "nat \<Rightarrow> string" where
  "int_limit_message n =
     ''Exceeds the limit (4300 digits) for integer string conversion: value has '' @
     str_nat n @ '' digits; use sys.set_int_max_str_digits() to increase the limit''"

definition mini_loads :: "string \<Rightarrow> exn + int json" where
  "mini_loads line =
     (if line = ''{}'' then Inr (JObj [])
      else if line = ''[]'' then Inr (JArr [])
      else if line \<noteq> [] \<and> list_all (\<lambda>c. c \<in> set ''0123456789'') line \<and>
              (hd line \<noteq> CHR ''0'' \<or> length line = 1) then
        (if 4300 < length line then Inl (ValueError (int_limit_message (length line)))
         else Inr (JInt (foldl (\<lambda>a c. 10 * a + (int (of_char c) - 48)) 0 line)))
      else Inl JSONDecodeError)"

definition mini_str :: "exn \<Rightarrow> string" where
  "mini_str e = (case e of ValueError msg \<Rightarrow> msg | _ \<Rightarrow> [])"

definition mini_bundle :: "int FileParseResponse" where
  "mini_bundle =
     \<lparr>file_metadata =
        \<lparr>file_id = ''f1'', file_name = ''a.bz2'', size_bytes = 2, upload_time = ''tZ'',
         processing_status = ''completed'', error_message = None, processed_at = None\<rparr>,
      markets = [],
      processing_stats =
        \<lparr>total_records = 1, total_runners = 0, processing_time_ms = 0,
         compressed_size_bytes = 2, decompressed_size_bytes = 2\<rparr>\<rparr>"

definition mini_lib :: "int pylib" where
  "mini_lib =
     \<lparr>bz2_utf8 = Inr, json_loads = mini_loads, exn_str = mini_str,
      json_dumps = (\<lambda>indent v. ''{}''),
      float_of_int = Some, float_of_str = (\<lambda>s. None), float_zero = 0, float_one = 1,
      float_is_zero = (\<lambda>x. x = 0), float_add = (+), float_str = str_int, float_eq = (=),
      py_eq = (=), coerce_str = (\<lambda>v. None), coerce_int = (\<lambda>v. None),
      coerce_float = (\<lambda>v. None), coerce_bool = (\<lambda>v. None), coerce_dict = (\<lambda>v. None),
      model_dict = (\<lambda>b. JObj [(''markets'', JArr [])]),
      model_parse = (\<lambda>d. if d = JObj [(''markets'', JArr [])] then Inr mini_bundle
                          else Inl ValidationError)\<rparr>"

text \<open>
  The record of the scenario of the specification,
  \<^verbatim>\<open>{"mc":[{"id":"1.23","runners":[{"id":111,"status":"ACTIVE"}]}]}\<close>, with a market
  definition that claims seven runners, and the market it normalizes to.
\<close>

definition scenario_record :: "int json" where
  "scenario_record =
     JObj [(''mc'', JArr [JObj [(''id'', JStr ''1.23''),
                               (''runners'', JArr [JObj [(''id'', JInt 111),
                                                         (''status'', JStr ''ACTIVE'')]])]]),
           (''marketDefinition'', JObj [(''numberOfActiveRunners'', JInt 7)])]"

definition default_bsp :: "int RunnerBSP" where
  "default_bsp =
     \<lparr>near_price = None, far_price = None, actual_sp = None, back_stake_taken = [],
      lay_liability_taken = []\<rparr>"

definition default_ex :: "int RunnerEX" where
  "default_ex = \<lparr>available_to_back = [], available_to_lay = [], traded_volume = []\<rparr>"

definition default_market :: "int Market" where
  "default_market =
     \<lparr>market_id = ''UNKNOWN'', market_name = ''Unknown Market'', market_type = ''UNKNOWN'',
      event_id = Some [], event_name = Some [], event_date = Some [], country_code = Some [],
      market_status = ''UNKNOWN'', inplay = False, total_matched = 0, total_available = 0,
      number_of_runners = 0, number_of_winners = 1, publish_time = None, version = None,
      runners = []\<rparr>"

definition scenario_market :: "int Market" where
  "scenario_market =
     default_market
       \<lparr>market_id := ''1.23'', number_of_runners := 1,
        runners :=
          [\<lparr>selection_id = 111, runner_name = ''Unknown'', status = ''ACTIVE'',
            bsp = default_bsp, ex = default_ex, last_price_traded = None,
            adjustment_factor = Some 1\<rparr>]\<rparr>"

text \<open>
  A record whose market definition has an empty name, and one whose definition has a name
  of its own; both come with a market catalogue.
\<close>

definition blank_name_record :: "int json" where
  "blank_name_record =
     JObj [(''marketDefinition'', JObj [(''name'', JStr [])]),
           (''marketCatalogue'', JObj [(''marketName'', JStr ''Real'')])]"

definition named_record :: "int json" where
  "named_record =
     JObj [(''marketDefinition'', JObj [(''name'', JStr ''2m Hcap'')]),
           (''marketCatalogue'', JObj [(''marketName'', JStr ''Other'')])]"

text \<open>A record whose second runner book has no \<^verbatim>\<open>id\<close>.\<close>

definition idless_record :: "int json" where
  "idless_record =
     JObj [(''mc'', JArr [JObj [(''id'', JStr ''1.23''),
                               (''runners'', JArr [JObj [(''id'', JInt 111)],
                                                   JObj [(''status'', JStr ''ACTIVE'')]])]])]"





text \<open>A decompressed text of four lines and a final line feed: a record, a blank line, a line
  that is no JSON, a record.\<close>

definition sample_text :: string where
  "sample_text = ''{}'' @ [CHR 0x0A, CHR 0x0A] @ ''not json'' @ [CHR 0x0A] @ ''[]'' @ [CHR 0x0A]"

text \<open>An environment for \<^verbatim>\<open>parse_file\<close>, a store with one file, and a request for XML.\<close>

definition sample_env :: sysenv where
  "sample_env = \<lparr>uuid4 = ''u1'', utcnow_upload = ''t0'', utcnow_processed = ''t1'', elapsed_ms = 5\<rparr>"

definition mini_store :: "string \<Rightarrow> int json option" where
  "mini_store fid = (if fid = ''f1'' then Some (JObj [(''markets'', JArr [])]) else None)"

definition xml_request :: ExportRequest where
  "xml_request = \<lparr>format = ''XML'', include_prices = True, runner_filter = None\<rparr>"

text \<open>
  A decompressed text of three lines: a record, an integer of 4301 digits, a record.
\<close>

definition big_int_line :: string where
  "big_int_line = replicate 4301 (CHR ''1'')"

definition big_text :: string where
  "big_text = ''{}'' @ [CHR 0x0A] @ big_int_line @ [CHR 0x0A] @ ''[]''"











section \<open>Basic facts\<close>

lemma bindE_Inl [simp]: "bindE (Inl e) f = Inl e"
  by (simp add: bindE_def)

lemma bindE_Inr [simp]: "bindE (Inr a) f = f a"
  by (simp add: bindE_def)

lemma bindE_eq_Inr: "bindE x f = Inr y \<longleftrightarrow> (\<exists>a. x = Inr a \<and> f a = Inr y)"
  by (cases x) simp_all

lemmas mini_simps =
  mini_lib_def mini_loads_def extract_market_data_def extract_runner_def new_Market_def
  new_Runner_def new_RunnerBSP_def new_RunnerEX_def optional_def ladder_validator_def
  format_price_stakes_def format_item_def default_market_def default_bsp_def default_ex_def

lemma scenario_normalizes:
  "extract_market_data mini_lib scenario_record = Inr scenario_market"
  by (simp add: mini_simps scenario_record_def scenario_market_def)

section \<open>What a normalized market is made of\<close>

lemma new_Market_fields:
  assumes "new_Market lib mid mname mtype eid ename edate cc mstatus inp tm ta n nw pt ver rs
           = Inr m"
  shows "number_of_runners m = n \<and> runners m = rs \<and>
         str_validator lib mid = Inr (market_id m) \<and>
         str_validator lib mname = Inr (market_name m)"
  using assms unfolding new_Market_def bindE_eq_Inr by auto

lemma extract_runners_all2:
  "extract_runners lib cat rbs acc = Inr rs \<Longrightarrow>
     \<exists>new. rs = acc @ new \<and> list_all2 (\<lambda>rb r. extract_runner lib cat rb = Inr r) rbs new"
proof (induction rbs arbitrary: acc)
  case Nil
  then show ?case by simp
next
  case (Cons rb rbs)
  from Cons.prems obtain r where r: "extract_runner lib cat rb = Inr r"
    and rest: "extract_runners lib cat rbs (acc @ [r]) = Inr rs"
    by (auto split: sum.splits)
  from Cons.IH [OF rest] obtain new where "rs = (acc @ [r]) @ new"
    and "list_all2 (\<lambda>rb r. extract_runner lib cat rb = Inr r) rbs new" by blast
  with r show ?case by (intro exI [of _ "r # new"]) simp
qed

lemma extract_market_data_parts:
  assumes "extract_market_data lib stream_data = Inr m"
  shows "\<exists>mc book cat rb rbs.
           py_get stream_data ''mc'' (JArr [JObj []]) = Inr mc \<and> py_index0 mc = Inr book \<and>
           py_get stream_data ''marketCatalogue'' (JObj []) = Inr cat \<and>
           py_get book ''runners'' (JArr []) = Inr rb \<and> py_iter rb = Inr rbs \<and>
           list_all2 (\<lambda>rb r. extract_runner lib cat rb = Inr r) rbs (runners m) \<and>
           number_of_runners m = int (length (runners m))"
  using assms unfolding extract_market_data_def bindE_eq_Inr
  by (auto dest!: new_Market_fields extract_runners_all2)

section \<open>The runner count of a market\<close>

text \<open>
  Claim C1. In every market that \<^verbatim>\<open>extract_market_data\<close> returns, \<open>number_of_runners\<close> is
  the length of \<open>runners\<close>; it is the number of entries of the runner books of the first
  market change, whatever else the record holds, a runner count of its own included.
\<close>

theorem number_of_runners_is_length:
  assumes "extract_market_data lib stream_data = Inr m"
  shows "number_of_runners m = int (length (runners m)) \<and>
         (\<exists>mc book rb rbs.
            py_get stream_data ''mc'' (JArr [JObj []]) = Inr mc \<and> py_index0 mc = Inr book \<and>
            py_get book ''runners'' (JArr []) = Inr rb \<and> py_iter rb = Inr rbs \<and>
            number_of_runners m = int (length rbs))"
  using extract_market_data_parts [OF assms] by (auto dest: list_all2_lengthD)

theorem number_of_runners_is_length_witness:
  "extract_market_data mini_lib scenario_record = Inr scenario_market \<and>
   number_of_runners scenario_market = 1 \<and> length (runners scenario_market) = 1"
  using number_of_runners_is_length [OF scenario_normalizes]
  by (simp add: scenario_normalizes scenario_market_def)

section \<open>The market identifier\<close>

text \<open>
  Claim C2. The claim has a record with an empty \<^verbatim>\<open>mc\<close> list normalize to a market whose
  identifier is \<^verbatim>\<open>UNKNOWN\<close>. In the source the default \<^verbatim>\<open>[{}]\<close> stands in for a missing
  \<^verbatim>\<open>mc\<close> key only; an \<^verbatim>\<open>mc\<close> list that is present and empty is indexed at 0 and
  \<^verbatim>\<open>extract_market_data\<close> raises \<^verbatim>\<open>IndexError\<close>.
\<close>

theorem empty_mc_raises:
  assumes "map_of kvs ''mc'' = Some (JArr [])"
  shows "extract_market_data lib (JObj kvs) = Inl IndexError"
  using assms by (simp add: extract_market_data_def)

theorem empty_mc_raises_witness:
  "map_of [(''mc'', JArr [])] ''mc'' = Some (JArr []) \<and>
   extract_market_data mini_lib (JObj [(''mc'', JArr [])]) = Inl IndexError"
  using empty_mc_raises [of "[(''mc'', JArr [])]" mini_lib] by simp

text \<open>
  What the source does reach: the identifier is the \<^verbatim>\<open>id\<close> of the first market change, and
  it is \<^verbatim>\<open>UNKNOWN\<close> when the record has no \<^verbatim>\<open>mc\<close> key or the first market change has no
  \<^verbatim>\<open>id\<close>.
\<close>

lemma market_id_rule:
  assumes "extract_market_data lib stream_data = Inr m"
  shows "\<exists>mc book v.
           py_get stream_data ''mc'' (JArr [JObj []]) = Inr mc \<and> py_index0 mc = Inr book \<and>
           py_get book ''id'' (JStr ''UNKNOWN'') = Inr v \<and>
           str_validator lib v = Inr (market_id m)"
  using assms unfolding extract_market_data_def bindE_eq_Inr
  by (auto dest!: new_Market_fields)

lemma market_id_default:
  assumes "extract_market_data lib (JObj kvs) = Inr m"
    and "map_of kvs ''mc'' = None \<or>
         (\<exists>book rest. map_of kvs ''mc'' = Some (JArr (JObj book # rest)) \<and>
                      map_of book ''id'' = None)"
  shows "market_id m = ''UNKNOWN''"
  using market_id_rule [OF assms(1)] assms(2) by auto

section \<open>The market name\<close>

text \<open>
  Claim C7, as stated: the market name is the name of the market definition whenever that
  name is present and is not \<^verbatim>\<open>Unknown Market\<close>. The source also falls back when the name
  is falsy (line 168, \<^verbatim>\<open>not market_name\<close>): here the definition's name is present and
  empty, and the market takes the name of the catalogue.
\<close>

theorem blank_definition_name_is_replaced:
  "py_get blank_name_record ''marketDefinition'' (JObj []) = Inr (JObj [(''name'', JStr [])]) \<and>
   map_of [(''name'', JStr [])] ''name'' = Some (JStr [] :: int json) \<and>
   extract_market_data mini_lib blank_name_record
     = Inr (default_market\<lparr>market_name := ''Real''\<rparr>)"
  by (simp add: mini_simps blank_name_record_def)

text \<open>
  Claim C7, amended. Let \<open>nm\<close> be the definition's \<^verbatim>\<open>name\<close>, or \<^verbatim>\<open>Unknown Market\<close> when
  the definition has none. When \<open>nm\<close> is truthy and is not \<^verbatim>\<open>Unknown Market\<close>, the market
  name is \<open>nm\<close>. When \<open>nm\<close> is falsy (an empty string, null) or is \<^verbatim>\<open>Unknown Market\<close>,
  the market name is the catalogue's \<^verbatim>\<open>marketName\<close>, and \<open>nm\<close> itself when the catalogue
  has none.
\<close>

theorem market_name_rule:
  assumes "extract_market_data lib stream_data = Inr m"
    and "py_get stream_data ''marketDefinition'' (JObj []) = Inr defn"
    and "py_get defn ''name'' (JStr ''Unknown Market'') = Inr nm"
    and "py_get stream_data ''marketCatalogue'' (JObj []) = Inr cat"
  shows "(py_truthy lib nm \<and> nm \<noteq> JStr ''Unknown Market'' \<longrightarrow>
            str_validator lib nm = Inr (market_name m)) \<and>
         (\<not> py_truthy lib nm \<or> nm = JStr ''Unknown Market'' \<longrightarrow>
            (\<exists>v. py_get cat ''marketName'' nm = Inr v \<and>
                 str_validator lib v = Inr (market_name m))) \<and>
         (\<forall>s. nm = JStr s \<and> s \<noteq> [] \<and> s \<noteq> ''Unknown Market'' \<longrightarrow> market_name m = s)"
  using assms unfolding extract_market_data_def bindE_eq_Inr
  by (auto dest!: new_Market_fields)

theorem market_name_rule_witness:
  "extract_market_data mini_lib named_record
     = Inr (default_market\<lparr>market_name := ''2m Hcap''\<rparr>) \<and>
   py_get named_record ''marketDefinition'' (JObj [])
     = Inr (JObj [(''name'', JStr ''2m Hcap'')]) \<and>
   py_get (JObj [(''name'', JStr ''2m Hcap'')]) ''name'' (JStr ''Unknown Market'')
     = Inr (JStr ''2m Hcap'' :: int json) \<and>
   py_get named_record ''marketCatalogue'' (JObj [])
     = Inr (JObj [(''marketName'', JStr ''Other'')]) \<and>
   market_name (default_market\<lparr>market_name := ''2m Hcap''\<rparr>) = ''2m Hcap''"
proof -
  have a: "extract_market_data mini_lib named_record
             = Inr (default_market\<lparr>market_name := ''2m Hcap''\<rparr>)"
    by (simp add: mini_simps named_record_def)
  have b: "py_get named_record ''marketDefinition'' (JObj [])
             = Inr (JObj [(''name'', JStr ''2m Hcap'')])"
    by (simp add: named_record_def)
  have c: "py_get (JObj [(''name'', JStr ''2m Hcap'')]) ''name'' (JStr ''Unknown Market'')
             = Inr (JStr ''2m Hcap'' :: int json)"
    by simp
  have d: "py_get named_record ''marketCatalogue'' (JObj [])
             = Inr (JObj [(''marketName'', JStr ''Other'')])"
    by (simp add: named_record_def)
  from market_name_rule [OF a b c d] a b c d show ?thesis by simp
qed

section \<open>A runner book without an identifier\<close>

lemma isl_bindE_iff: "isl (bindE x f) \<longleftrightarrow> (\<forall>a. x = Inr a \<longrightarrow> isl (f a))"
  by (cases x) simp_all

lemma extract_runner_no_id:
  assumes "map_of kvs ''id'' = None"
  shows "isl (extract_runner lib cat (JObj kvs))"
  using assms unfolding extract_runner_def isl_bindE_iff
  by (simp add: new_Runner_def)

lemma extract_runners_fail:
  "rb \<in> set rbs \<Longrightarrow> isl (extract_runner lib cat rb) \<Longrightarrow> isl (extract_runners lib cat rbs acc)"
  by (induction rbs arbitrary: acc) (auto split: sum.splits)

lemma extract_records_append:
  "extract_records lib (xs @ ys) ms n =
     (case extract_records lib xs ms n of (ms', n') \<Rightarrow> extract_records lib ys ms' n')"
  by (induction xs arbitrary: ms n) (auto split: sum.splits)

text \<open>
  Claim C10. When a runner book of the first market change has no \<^verbatim>\<open>id\<close>, the constructor
  of \<^verbatim>\<open>Runner\<close> rejects the missing selection identifier, \<^verbatim>\<open>extract_market_data\<close> raises
  on the whole record, and the loop of \<^verbatim>\<open>parse_file\<close> goes on as if the record were not
  there: none of its runners reaches the result.
\<close>

theorem runner_without_id_drops_record:
  assumes "py_get stream_data ''mc'' (JArr [JObj []]) = Inr mc"
    and "py_index0 mc = Inr book"
    and "py_get book ''runners'' (JArr []) = Inr (JArr rbs)"
    and "JObj kvs \<in> set rbs"
    and "map_of kvs ''id'' = None"
  shows "new_Runner lib JNull name st b e ltp af = Inl ValidationError \<and>
         isl (extract_runner lib cat (JObj kvs)) \<and>
         isl (extract_market_data lib stream_data) \<and>
         extract_records lib (before @ stream_data # after) ms n
           = extract_records lib (before @ after) ms n"
proof -
  have v: "new_Runner lib JNull name st b e ltp af = Inl ValidationError"
    by (simp add: new_Runner_def)
  have r: "isl (extract_runner lib c (JObj kvs))" for c
    using assms(5) by (rule extract_runner_no_id)
  have "isl (extract_runners lib c rbs [])" for c
    using assms(4) r by (rule extract_runners_fail)
  then have "extract_runners lib c rbs [] \<noteq> Inr x" for c x
    by (metis sum.disc(2))
  then have m: "isl (extract_market_data lib stream_data)"
    using assms(1-3) unfolding extract_market_data_def isl_bindE_iff by simp
  then obtain err where "extract_market_data lib stream_data = Inl err"
    by (cases "extract_market_data lib stream_data") simp_all
  then have "extract_records lib (stream_data # after) ms' n'
               = extract_records lib after ms' n'" for ms' n'
    by simp
  then have "extract_records lib (before @ stream_data # after) ms n
               = extract_records lib (before @ after) ms n"
    by (simp add: extract_records_append split: prod.splits)
  with v r m show ?thesis by simp
qed

theorem runner_without_id_drops_record_witness:
  "py_get idless_record ''mc'' (JArr [JObj []])
     = Inr (JArr [JObj [(''id'', JStr ''1.23''),
                        (''runners'', JArr [JObj [(''id'', JInt 111)],
                                            JObj [(''status'', JStr ''ACTIVE'')]])]]) \<and>
   JObj [(''status'', JStr ''ACTIVE'')]
     \<in> set [JObj [(''id'', JInt 111)], JObj [(''status'', JStr ''ACTIVE'')] :: int json] \<and>
   map_of [(''status'', JStr ''ACTIVE'' :: int json)] ''id'' = None \<and>
   isl (extract_market_data mini_lib idless_record) \<and>
   extract_records mini_lib [scenario_record, idless_record, scenario_record] [] 0
     = ([scenario_market, scenario_market], 2)"
proof -
  let ?book = "JObj [(''id'', JStr ''1.23''),
                     (''runners'', JArr [JObj [(''id'', JInt 111)],
                                         JObj [(''status'', JStr ''ACTIVE'')]])] :: int json"
  have a: "py_get idless_record ''mc'' (JArr [JObj []]) = Inr (JArr [?book])"
    by (simp add: idless_record_def)
  have b: "py_index0 (JArr [?book]) = Inr ?book" by simp
  have c: "py_get ?book ''runners'' (JArr [])
             = Inr (JArr [JObj [(''id'', JInt 111)], JObj [(''status'', JStr ''ACTIVE'')]])"
    by simp
  have d: "JObj [(''status'', JStr ''ACTIVE'')]
             \<in> set [JObj [(''id'', JInt 111)], JObj [(''status'', JStr ''ACTIVE'')] :: int json]"
    by simp
  have e: "map_of [(''status'', JStr ''ACTIVE'' :: int json)] ''id'' = None" by simp
  have f: "extract_records mini_lib [scenario_record, scenario_record] [] 0
             = ([scenario_market, scenario_market], 2)"
    by (simp add: scenario_normalizes) (simp add: scenario_market_def)
  from runner_without_id_drops_record
         [OF a b c d e, where lib = mini_lib and before = "[scenario_record]"
            and after = "[scenario_record]" and ms = "[]" and n = 0]
    a d e f
  show ?thesis by simp
qed

section \<open>The name of a runner\<close>







section \<open>The ladders of a runner\<close>











section \<open>The decoder\<close>

lemma length_map_filter_le: "length (List.map_filter f xs) \<le> length xs"
  by (induction xs) (auto simp: map_filter_simps split: option.splits)

lemma length_map_filter_eq:
  "length (List.map_filter f xs) = length xs \<longleftrightarrow> (\<forall>x \<in> set xs. f x \<noteq> None)"
proof (induction xs)
  case Nil
  show ?case by (simp add: map_filter_simps)
next
  case (Cons x xs)
  have "length (List.map_filter f xs) \<le> length xs" by (rule length_map_filter_le)
  with Cons show ?case
    by (cases "f x") (auto simp: map_filter_simps)
qed

lemma strip_nonempty: "py_strip l \<noteq> [] \<longleftrightarrow> (\<exists>c \<in> set l. \<not> py_isspace c)"
proof -
  have a: "(\<exists>c \<in> set (dropWhile P xs). \<not> P c) \<longleftrightarrow> (\<exists>c \<in> set xs. \<not> P c)" for P :: "char \<Rightarrow> bool" and xs
    by (induction xs) auto
  have "py_strip l \<noteq> [] \<longleftrightarrow> (\<exists>c \<in> set (rev (dropWhile py_isspace l)). \<not> py_isspace c)"
    by (simp add: py_strip_def dropWhile_eq_Nil_conv)
  also have "\<dots> \<longleftrightarrow> (\<exists>c \<in> set l. \<not> py_isspace c)"
    using a [of py_isspace l] by simp
  finally show ?thesis .
qed

lemma split_lines_not_Nil: "py_split_lines s \<noteq> []"
  by (induction s) (auto split: list.splits)

lemma count_lead:
  assumes "py_isspace c"
  shows "length (filter (\<lambda>l. py_strip l \<noteq> []) (py_split_lines (c # s)))
           = length (filter (\<lambda>l. py_strip l \<noteq> []) (py_split_lines s))"
proof (cases "c = CHR 0x0A")
  case True
  then show ?thesis by (simp add: py_strip_def)
next
  case False
  obtain l ls where "py_split_lines s = l # ls"
    using split_lines_not_Nil [of s] by (cases "py_split_lines s") auto
  with False assms show ?thesis by (simp add: strip_nonempty)
qed

lemma count_dropWhile:
  "length (filter (\<lambda>l. py_strip l \<noteq> []) (py_split_lines (dropWhile py_isspace s)))
     = length (filter (\<lambda>l. py_strip l \<noteq> []) (py_split_lines s))"
  by (induction s) (simp_all add: count_lead del: py_split_lines.simps(2))

lemma split_lines_snoc:
  "py_split_lines (s @ [c]) =
     (if c = CHR 0x0A then py_split_lines s @ [[]]
      else butlast (py_split_lines s) @ [last (py_split_lines s) @ [c]])"
proof (induction s)
  case Nil
  show ?case by simp
next
  case (Cons a s)
  obtain l ls where l: "py_split_lines s = l # ls"
    using split_lines_not_Nil [of s] by (cases "py_split_lines s") auto
  obtain l' ls' where l': "py_split_lines (s @ [c]) = l' # ls'"
    using split_lines_not_Nil [of "s @ [c]"] by (cases "py_split_lines (s @ [c])") auto
  from Cons l l' show ?case
    by (auto split: if_splits simp: split_lines_not_Nil)
qed

lemma count_trail:
  assumes "py_isspace c"
  shows "length (filter (\<lambda>l. py_strip l \<noteq> []) (py_split_lines (s @ [c])))
           = length (filter (\<lambda>l. py_strip l \<noteq> []) (py_split_lines s))"
proof (cases "c = CHR 0x0A")
  case True
  then show ?thesis by (simp add: split_lines_snoc strip_nonempty)
next
  case False
  let ?L = "py_split_lines s"
  have "(py_strip (last ?L @ [c]) \<noteq> []) = (py_strip (last ?L) \<noteq> [])"
    using assms by (simp add: strip_nonempty)
  then have "length (filter (\<lambda>l. py_strip l \<noteq> []) (butlast ?L @ [last ?L @ [c]]))
               = length (filter (\<lambda>l. py_strip l \<noteq> []) (butlast ?L @ [last ?L]))"
    by simp
  with False show ?thesis
    by (simp add: split_lines_snoc split_lines_not_Nil)
qed

lemma count_rev_dropWhile:
  "length (filter (\<lambda>l. py_strip l \<noteq> []) (py_split_lines (rev (dropWhile py_isspace (rev s)))))
     = length (filter (\<lambda>l. py_strip l \<noteq> []) (py_split_lines s))"
  by (induction s rule: rev_induct) (simp_all add: count_trail)

lemma count_strip:
  "length (filter (\<lambda>l. py_strip l \<noteq> []) (py_split_lines (py_strip s)))
     = length (filter (\<lambda>l. py_strip l \<noteq> []) (py_split_lines s))"
  unfolding py_strip_def [of s] by (simp only: count_rev_dropWhile count_dropWhile)

text \<open>
  Claim C3. On every decompressed text, \<^verbatim>\<open>parse_json_stream\<close> returns, in the order of the
  text, what \<^verbatim>\<open>json.loads\<close> makes of the non-blank lines it accepts: a rejected line is
  left out and the lines after it are still read. So there are at most as many records as
  non-blank lines, and exactly as many when and only when \<^verbatim>\<open>json.loads\<close> accepts every
  non-blank line. The lines are those of the stripped text; it has as many non-blank lines
  as the text itself.
\<close>


lemma parse_lines_filter:
  "parse_lines lib ls acc = parse_lines lib (filter (\<lambda>l. py_strip l \<noteq> []) ls) acc"
  by (induction ls arbitrary: acc) (auto split: sum.splits exn.splits)

lemma parse_lines_append:
  "parse_lines lib (xs @ ys) acc = bindE (parse_lines lib xs acc) (parse_lines lib ys)"
  by (induction xs arbitrary: acc) (auto split: sum.splits exn.splits)

lemma parse_lines_ok:
  assumes "\<forall>l \<in> set ls. \<forall>e. json_loads lib l = Inl e \<longrightarrow> e = JSONDecodeError"
  shows "parse_lines lib ls acc =
           Inr (acc @ List.map_filter
                        (\<lambda>l. case json_loads lib l of Inl e \<Rightarrow> None | Inr r \<Rightarrow> Some r)
                        (filter (\<lambda>l. py_strip l \<noteq> []) ls))"
  using assms
  by (induction ls arbitrary: acc) (auto simp: map_filter_simps split: sum.splits exn.splits)

lemma parse_lines_raise:
  assumes "\<forall>p \<in> set pre. \<forall>e'. json_loads lib p = Inl e' \<longrightarrow> e' = JSONDecodeError"
    and "py_strip l \<noteq> []"
    and "json_loads lib l = Inl e"
    and "e \<noteq> JSONDecodeError"
  shows "parse_lines lib (pre @ l # post) acc = Inl e"
  using assms(2-4) by (cases e) (simp_all add: parse_lines_append parse_lines_ok [OF assms(1)])

lemma split_lines_plain: "CHR 0x0A \<notin> set a \<Longrightarrow> py_split_lines a = [a]"
  by (induction a) auto

lemma split_lines_feed:
  "CHR 0x0A \<notin> set a \<Longrightarrow> py_split_lines (a @ CHR 0x0A # b) = a # py_split_lines b"
  by (induction a) auto

lemma strip_unchanged:
  assumes "s \<noteq> []" and "\<not> py_isspace (hd s)" and "\<not> py_isspace (last s)"
  shows "py_strip s = s"
proof -
  from assms(1,2) have "dropWhile py_isspace s = s" by (cases s) auto
  moreover from assms(1,3) have "dropWhile py_isspace (rev s) = rev s"
    by (cases "rev s") (auto simp: last_rev [symmetric] simp del: last_rev)
  ultimately show ?thesis by (simp add: py_strip_def)
qed

lemma big_lines: "py_split_lines (py_strip big_text) = [''{}'', big_int_line, ''[]'']"
proof -
  have "py_strip big_text = big_text"
    by (rule strip_unchanged) (simp_all add: big_text_def py_isspace_def)
  moreover have "py_split_lines big_text = [''{}'', big_int_line, ''[]'']"
    using split_lines_feed [of big_int_line "''[]''"]
    by (simp add: big_text_def big_int_line_def)
  ultimately show ?thesis by simp
qed

lemma int_limit_message_4301:
  "int_limit_message 4301 =
     ''Exceeds the limit (4300 digits) for integer string conversion: value has 4301 digits; use sys.set_int_max_str_digits() to increase the limit''"
  by code_simp

lemma big_int_line_raises:
  "json_loads mini_lib big_int_line = Inl (ValueError (int_limit_message 4301))"
proof -
  have "length big_int_line = 4301" by (simp add: big_int_line_def)
  then have "length big_int_line \<noteq> length ''{}''" and "length big_int_line \<noteq> length ''[]''"
    and "length big_int_line \<noteq> length ([] :: string)"
    by simp_all
  then have "big_int_line \<noteq> ''{}''" and "big_int_line \<noteq> ''[]''" and "big_int_line \<noteq> []"
    by (metis, metis, metis)
  moreover have "list_all (\<lambda>c. c \<in> set ''0123456789'') big_int_line"
    and "hd big_int_line \<noteq> CHR ''0''"
    by (simp_all add: big_int_line_def list_all_iff)
  moreover note \<open>length big_int_line = 4301\<close>
  ultimately show ?thesis by (simp add: mini_lib_def mini_loads_def)
qed

lemma big_text_raises:
  "parse_json_stream mini_lib big_text = Inl (ValueError (int_limit_message 4301))"
proof -
  have "py_strip big_int_line \<noteq> []"
    by (simp add: strip_nonempty big_int_line_def py_isspace_def)
  moreover have "py_strip ''{}'' \<noteq> []"
    by (simp add: strip_nonempty py_isspace_def)
  moreover have "json_loads mini_lib ''{}'' = Inr (JObj [])"
    by (simp add: mini_lib_def mini_loads_def)
  ultimately show ?thesis
    by (simp add: parse_json_stream_def big_lines big_int_line_raises)
qed

text \<open>
  Claim C3, as stated: a line that fails to parse is dropped and the lines after it are
  still read. The handler of line 147 catches \<^verbatim>\<open>json.JSONDecodeError\<close> only. On an integer
  of 4301 digits \<^verbatim>\<open>json.loads\<close> raises a plain \<^verbatim>\<open>ValueError\<close>: the decoder raises it and
  returns no record, although the first and the third line parse.
\<close>

theorem unparsed_line_aborts_decoder:
  "py_split_lines (py_strip big_text) = [''{}'', big_int_line, ''[]''] \<and>
   json_loads mini_lib ''{}'' = Inr (JObj []) \<and>
   json_loads mini_lib ''[]'' = Inr (JArr []) \<and>
   parse_json_stream mini_lib big_text =
     Inl (ValueError ''Exceeds the limit (4300 digits) for integer string conversion: value has 4301 digits; use sys.set_int_max_str_digits() to increase the limit'')"
  using big_lines big_text_raises
  by (simp add: int_limit_message_4301) (simp add: mini_lib_def mini_loads_def)

text \<open>
  Claim C3, amended. Let \<open>lines\<close> be the non-blank lines of the stripped text (as many as
  the text itself has). When \<^verbatim>\<open>json.loads\<close> raises nothing but \<^verbatim>\<open>JSONDecodeError\<close> on them,
  \<^verbatim>\<open>parse_json_stream\<close> returns, in the order of the text, what \<^verbatim>\<open>json.loads\<close> makes of
  the lines it accepts: a line rejected with \<^verbatim>\<open>JSONDecodeError\<close> is left out and the lines
  after it are still read, so there are at most as many records as non-blank lines, and
  exactly as many when and only when every non-blank line is accepted. The first non-blank
  line on which \<^verbatim>\<open>json.loads\<close> raises another exception ends the decoding with that
  exception.
\<close>

theorem decoder_outcomes:
  "(let lines = filter (\<lambda>l. py_strip l \<noteq> []) (py_split_lines (py_strip decoded));
        loaded = (\<lambda>l. case json_loads lib l of Inl e \<Rightarrow> None | Inr r \<Rightarrow> Some r)
    in ((\<forall>l \<in> set lines. \<forall>e. json_loads lib l = Inl e \<longrightarrow> e = JSONDecodeError) \<longrightarrow>
          parse_json_stream lib decoded = Inr (List.map_filter loaded lines) \<and>
          length (List.map_filter loaded lines) \<le> length lines \<and>
          (length (List.map_filter loaded lines) = length lines
           \<longleftrightarrow> (\<forall>l \<in> set lines. loaded l \<noteq> None))) \<and>
       (\<forall>pre l post e.
          lines = pre @ l # post \<and>
          (\<forall>p \<in> set pre. \<forall>e'. json_loads lib p = Inl e' \<longrightarrow> e' = JSONDecodeError) \<and>
          json_loads lib l = Inl e \<and> e \<noteq> JSONDecodeError \<longrightarrow>
          parse_json_stream lib decoded = Inl e) \<and>
       length lines = length (filter (\<lambda>l. py_strip l \<noteq> []) (py_split_lines decoded)))"
proof -
  let ?lines = "filter (\<lambda>l. py_strip l \<noteq> []) (py_split_lines (py_strip decoded))"
  let ?loaded = "\<lambda>l. case json_loads lib l of Inl e \<Rightarrow> None | Inr r \<Rightarrow> Some r"
  have stream: "parse_json_stream lib decoded = parse_lines lib ?lines []"
    unfolding parse_json_stream_def by (rule parse_lines_filter)
  have ok: "parse_json_stream lib decoded = Inr (List.map_filter ?loaded ?lines)"
    if "\<forall>l \<in> set ?lines. \<forall>e. json_loads lib l = Inl e \<longrightarrow> e = JSONDecodeError"
    unfolding stream parse_lines_ok [OF that] by simp
  have le: "length (List.map_filter ?loaded ?lines) \<le> length ?lines"
    by (rule length_map_filter_le)
  have eq: "length (List.map_filter ?loaded ?lines) = length ?lines
              \<longleftrightarrow> (\<forall>l \<in> set ?lines. ?loaded l \<noteq> None)"
    by (rule length_map_filter_eq)
  have raise: "parse_json_stream lib decoded = Inl e"
    if "?lines = pre @ l # post"
      and "\<forall>p \<in> set pre. \<forall>e'. json_loads lib p = Inl e' \<longrightarrow> e' = JSONDecodeError"
      and "json_loads lib l = Inl e" and "e \<noteq> JSONDecodeError" for pre l post e
  proof -
    from that(1) have "l \<in> set ?lines" by simp
    then have "py_strip l \<noteq> []" by simp
    from parse_lines_raise [OF that(2) this that(3,4)] that(1) show ?thesis
      unfolding stream by simp
  qed
  from ok le eq raise count_strip [of decoded] show ?thesis
    unfolding Let_def by blast
qed


lemma sample_lines:
  "py_split_lines (py_strip sample_text) = [''{}'', [], ''not json'', ''[]'']"
  by (simp add: sample_text_def py_strip_def py_isspace_def)

lemma sample_records: "parse_json_stream mini_lib sample_text = Inr [JObj [], JArr []]"
  by (simp add: parse_json_stream_def sample_lines)
     (simp add: py_strip_def py_isspace_def mini_lib_def mini_loads_def)

theorem decoder_outcomes_witness:
  "filter (\<lambda>l. py_strip l \<noteq> []) (py_split_lines (py_strip sample_text))
     = [''{}'', ''not json'', ''[]''] \<and>
   json_loads mini_lib ''{}'' = Inr (JObj []) \<and>
   json_loads mini_lib ''not json'' = Inl JSONDecodeError \<and>
   json_loads mini_lib ''[]'' = Inr (JArr []) \<and>
   parse_json_stream mini_lib sample_text = Inr [JObj [], JArr []] \<and>
   length (filter (\<lambda>l. py_strip l \<noteq> []) (py_split_lines sample_text)) = 3"
proof -
  have a: "filter (\<lambda>l. py_strip l \<noteq> []) (py_split_lines (py_strip sample_text))
             = [''{}'', ''not json'', ''[]'']"
    by (simp add: sample_lines) (simp add: py_strip_def py_isspace_def)
  have b: "json_loads mini_lib ''{}'' = Inr (JObj [])"
    "json_loads mini_lib ''not json'' = Inl JSONDecodeError"
    "json_loads mini_lib ''[]'' = Inr (JArr [])"
    by (simp_all add: mini_lib_def mini_loads_def)
  from decoder_outcomes [of sample_text mini_lib] a b sample_records
  show ?thesis by (simp add: Let_def)
qed

section \<open>The outcomes of \<^verbatim>\<open>parse_file\<close>\<close>

lemma extract_records_eq:
  "extract_records lib rs ms n =
     (ms @ List.map_filter
             (\<lambda>r. case extract_market_data lib r of Inl e \<Rightarrow> None | Inr m \<Rightarrow> Some m) rs,
      n + sum_list (map (\<lambda>m. int (length (runners m)))
            (List.map_filter
               (\<lambda>r. case extract_market_data lib r of Inl e \<Rightarrow> None | Inr m \<Rightarrow> Some m) rs)))"
  by (induction rs arbitrary: ms n) (auto simp: map_filter_simps split: sum.splits)

lemma map_filter_Nil_iff: "List.map_filter f xs = [] \<longleftrightarrow> (\<forall>x \<in> set xs. f x = None)"
  by (induction xs) (auto simp: map_filter_simps split: option.splits)

lemma extracted_None_iff:
  "(case extract_market_data lib r of Inl e \<Rightarrow> None | Inr m \<Rightarrow> Some m) = None
     \<longleftrightarrow> isl (extract_market_data lib r)"
  by (cases "extract_market_data lib r") simp_all


lemma default_normalizes: "extract_market_data mini_lib (JObj []) = Inr default_market"
  by (simp add: mini_simps)

lemma array_fails: "extract_market_data mini_lib (JArr []) = Inl AttributeError"
  by (simp add: mini_simps)

text \<open>
  Claim C4, as stated: a hard error is raised only when no line decodes or no record
  normalizes, and the parse succeeds when a line decodes and a record normalizes. Here the
  first line decodes and normalizes, and the parse fails with the \<^verbatim>\<open>ValueError\<close> of line
  286, raised for the exception that \<^verbatim>\<open>json.loads\<close> raises on the second line.
\<close>

theorem unparsed_line_fails_file:
  "decompress_bz2 mini_lib big_text = Inr big_text \<and>
   py_split_lines (py_strip big_text) = [''{}'', big_int_line, ''[]''] \<and>
   json_loads mini_lib ''{}'' = Inr (JObj []) \<and>
   extract_market_data mini_lib (JObj []) = Inr default_market \<and>
   parse_file mini_lib sample_env big_text ''a.bz2'' =
     Inl (ValueError ''JSON parsing failed: Exceeds the limit (4300 digits) for integer string conversion: value has 4301 digits; use sys.set_int_max_str_digits() to increase the limit'')"
proof -
  have a: "decompress_bz2 mini_lib big_text = Inr big_text"
    by (simp add: decompress_bz2_def mini_lib_def)
  have b: "json_loads mini_lib ''{}'' = Inr (JObj [])"
    by (simp add: mini_lib_def mini_loads_def)
  have c: "exn_str mini_lib (ValueError (int_limit_message 4301)) = int_limit_message 4301"
    by (simp add: mini_lib_def mini_str_def)
  have "parse_file mini_lib sample_env big_text ''a.bz2'' =
          Inl (ValueError (''JSON parsing failed: '' @ int_limit_message 4301))"
    using a c by (simp add: parse_file_def Let_def big_text_raises)
  with a b big_lines default_normalizes show ?thesis
    by (simp add: int_limit_message_4301)
qed


text \<open>
  Claim C4, amended. Once the file is decompressed, \<^verbatim>\<open>parse_file\<close> raises a hard error in
  three cases and no other. It raises \<^verbatim>\<open>JSON parsing failed\<close> when the decoder raises, that
  is when \<^verbatim>\<open>json.loads\<close> raises another exception than \<^verbatim>\<open>JSONDecodeError\<close> on a line.
  Otherwise it raises \<^verbatim>\<open>No valid records found in file\<close> exactly when no line is decoded,
  and \<^verbatim>\<open>No valid markets found in file\<close> exactly when some line is decoded and
  \<^verbatim>\<open>extract_market_data\<close> raises on every record; and when it succeeds on at least one
  record the parse succeeds: the markets are those of the records that normalize, in
  order, the records that raise being passed over, and the statistics count every decoded
  record and the runners of the markets returned.
\<close>

theorem parse_file_outcomes:
  assumes "decompress_bz2 lib file_content = Inr decoded"
  shows "(\<forall>e. parse_json_stream lib decoded = Inl e \<longrightarrow>
            parse_file lib env file_content fname
              = Inl (ValueError (''JSON parsing failed: '' @ exn_str lib e))) \<and>
         (\<forall>records. parse_json_stream lib decoded = Inr records \<longrightarrow>
            (parse_file lib env file_content fname
               = Inl (ValueError ''No valid records found in file'')
             \<longleftrightarrow> records = []) \<and>
            (parse_file lib env file_content fname
               = Inl (ValueError ''No valid markets found in file'')
             \<longleftrightarrow> records \<noteq> [] \<and> (\<forall>r \<in> set records. isl (extract_market_data lib r))) \<and>
            (records \<noteq> [] \<and> (\<exists>r \<in> set records. \<not> isl (extract_market_data lib r)) \<longrightarrow>
               (\<exists>response.
                  parse_file lib env file_content fname = Inr response \<and>
                  markets response =
                    List.map_filter
                      (\<lambda>r. case extract_market_data lib r of Inl e \<Rightarrow> None | Inr m \<Rightarrow> Some m)
                      records \<and>
                  total_records (processing_stats response) = int (length records) \<and>
                  total_runners (processing_stats response)
                    = sum_list (map (\<lambda>m. int (length (runners m))) (markets response)))))"
proof (intro conjI allI impI)
  fix e assume "parse_json_stream lib decoded = Inl e"
  with assms show "parse_file lib env file_content fname
                     = Inl (ValueError (''JSON parsing failed: '' @ exn_str lib e))"
    by (simp add: parse_file_def Let_def)
next
  fix records assume r: "parse_json_stream lib decoded = Inr records"
  let ?ms = "List.map_filter
               (\<lambda>r. case extract_market_data lib r of Inl e \<Rightarrow> None | Inr m \<Rightarrow> Some m) records"
  have none: "?ms = [] \<longleftrightarrow> (\<forall>r \<in> set records. isl (extract_market_data lib r))"
    by (simp add: map_filter_Nil_iff extracted_None_iff)
  have pf: "parse_file lib env file_content fname =
              (if records = [] then Inl (ValueError ''No valid records found in file'')
               else if ?ms = [] then Inl (ValueError ''No valid markets found in file'')
               else Inr
                 \<lparr>file_metadata =
                    \<lparr>file_id = uuid4 env, file_name = fname,
                     size_bytes = int (length file_content),
                     upload_time = utcnow_upload env @ ''Z'',
                     processing_status = ''completed'', error_message = None,
                     processed_at = Some (utcnow_processed env @ ''Z'')\<rparr>,
                  markets = ?ms,
                  processing_stats =
                    \<lparr>total_records = int (length records),
                     total_runners = sum_list (map (\<lambda>m. int (length (runners m))) ?ms),
                     processing_time_ms = elapsed_ms env,
                     compressed_size_bytes = int (length file_content),
                     decompressed_size_bytes = utf8_length decoded\<rparr>\<rparr>)"
    using assms r by (simp add: parse_file_def Let_def extract_records_eq)
  show "parse_file lib env file_content fname
          = Inl (ValueError ''No valid records found in file'') \<longleftrightarrow> records = []"
    unfolding pf by simp
  show "parse_file lib env file_content fname
          = Inl (ValueError ''No valid markets found in file'')
        \<longleftrightarrow> records \<noteq> [] \<and> (\<forall>r \<in> set records. isl (extract_market_data lib r))"
    unfolding pf using none by simp
  show "\<exists>response.
          parse_file lib env file_content fname = Inr response \<and>
          markets response = ?ms \<and>
          total_records (processing_stats response) = int (length records) \<and>
          total_runners (processing_stats response)
            = sum_list (map (\<lambda>m. int (length (runners m))) (markets response))"
    if "records \<noteq> [] \<and> (\<exists>r \<in> set records. \<not> isl (extract_market_data lib r))"
    unfolding pf using that none by simp
qed

theorem parse_file_outcomes_witness:
  "decompress_bz2 mini_lib sample_text = Inr sample_text \<and>
   parse_json_stream mini_lib sample_text = Inr [JObj [], JArr []] \<and>
   extract_market_data mini_lib (JObj []) = Inr default_market \<and>
   extract_market_data mini_lib (JArr []) = Inl AttributeError \<and>
   map_sum id markets (parse_file mini_lib sample_env sample_text ''a.bz2'')
     = Inr [default_market] \<and>
   map_sum id (total_records \<circ> processing_stats)
       (parse_file mini_lib sample_env sample_text ''a.bz2'') = Inr 2"
proof -
  have a: "decompress_bz2 mini_lib sample_text = Inr sample_text"
    by (simp add: decompress_bz2_def mini_lib_def)
  from parse_file_outcomes [OF a, of sample_env "''a.bz2''"] a
  show ?thesis
    by (auto simp: sample_records default_normalizes array_fails map_filter_simps)
qed

section \<open>The export of an unsupported format\<close>

text \<open>
  Claim C9. The claim has \<^verbatim>\<open>export_file\<close> answer a format that is neither \<^verbatim>\<open>csv\<close> nor
  \<^verbatim>\<open>json\<close> with the error of an unsupported format. The source raises that error
  (status 400, line 556) inside the \<^verbatim>\<open>try\<close> statement whose handler (line 564) catches
  every exception and raises \<^verbatim>\<open>Export failed\<close> with status 500 instead, whereas
  \<^verbatim>\<open>upload_file\<close> lets an \<^verbatim>\<open>HTTPException\<close> through (line 484). For a stored file and
  such a format the body raises the first error and \<^verbatim>\<open>export_file\<close> raises the second.
\<close>

theorem unsupported_format_reported_as_failure:
  assumes "store fid = Some file_data"
    and "py_truthy lib file_data"
    and "model_parse lib file_data = Inr parse_result"
    and "py_lower (format request) \<noteq> ''csv''"
    and "py_lower (format request) \<noteq> ''json''"
  shows "export_body lib fid file_data request
           = Inl (HTTPException 400 ''Unsupported export format'') \<and>
         export_file lib store fid request = Inl (HTTPException 500 ''Export failed'')"
  using assms by (simp add: export_file_def export_body_def)

lemma lower_XML: "py_lower ''XML'' = ''xml''"
  by code_simp

theorem unsupported_format_reported_as_failure_witness:
  "py_truthy mini_lib (JObj [(''markets'', JArr [])]) \<and>
   model_parse mini_lib (JObj [(''markets'', JArr [])]) = Inr mini_bundle \<and>
   py_lower (format xml_request) = ''xml'' \<and>
   export_body mini_lib ''f1'' (JObj [(''markets'', JArr [])]) xml_request
     = Inl (HTTPException 400 ''Unsupported export format'') \<and>
   export_file mini_lib mini_store ''f1'' xml_request
     = Inl (HTTPException 500 ''Export failed'')"
proof -
  have a: "mini_store ''f1'' = Some (JObj [(''markets'', JArr [])])"
    by (simp add: mini_store_def)
  have b: "py_truthy mini_lib (JObj [(''markets'', JArr [])])" by simp
  have c: "model_parse mini_lib (JObj [(''markets'', JArr [])]) = Inr mini_bundle"
    by (simp add: mini_lib_def)
  have l: "py_lower (format xml_request) = ''xml''"
    by (simp add: xml_request_def lower_XML)
  then have d: "py_lower (format xml_request) \<noteq> ''csv''"
    and e: "py_lower (format xml_request) \<noteq> ''json''"
    by simp_all
  from unsupported_format_reported_as_failure
         [where store = mini_store and fid = "''f1''", OF a b c d e] b c l
  show ?thesis by simp
qed


text \<open>The two supported formats, in any case of letters, reach their renderers.\<close>

lemma export_file_json:
  assumes "store fid = Some file_data"
    and "py_truthy lib file_data"
    and "model_parse lib file_data = Inr parse_result"
    and "py_lower (format request) = ''json''"
  shows "export_file lib store fid request =
           Inr \<lparr>content = to_json lib parse_result True, media_type = ''application/json'',
                content_disposition = ''attachment; filename='' @ fid @ ''.json''\<rparr>"
  using assms by (simp add: export_file_def export_body_def)

lemma export_file_csv:
  assumes "store fid = Some file_data"
    and "py_truthy lib file_data"
    and "model_parse lib file_data = Inr parse_result"
    and "py_lower (format request) = ''csv''"
    and "to_csv lib (markets parse_result) (include_prices request) = Inr rows"
  shows "export_file lib store fid request =
           Inr \<lparr>content = rows, media_type = ''text/csv'',
                content_disposition = ''attachment; filename='' @ fid @ ''.csv''\<rparr>"
  using assms by (simp add: export_file_def export_body_def)

section \<open>The round trip through JSON\<close>

text \<open>The constructor rebuilds a bundle from the bundle's own \<^verbatim>\<open>dict()\<close>.\<close>

lemma mapE_map:
  "(\<And>x. x \<in> set xs \<Longrightarrow> f (g x) = Inr x) \<Longrightarrow> mapE f (map g xs) = Inr xs"
  by (induction xs) simp_all

lemma optional_str [simp]: "optional (str_validator lib) (opt_json JStr x) = Inr x"
  by (cases x) (simp_all add: optional_def opt_json_def)

lemma optional_int [simp]: "optional (int_validator lib) (opt_json JInt x) = Inr x"
  by (cases x) (simp_all add: optional_def opt_json_def)

lemma optional_float [simp]: "optional (float_validator lib) (opt_json JFloat x) = Inr x"
  by (cases x) (simp_all add: optional_def opt_json_def)

lemma parse_ladder_json [simp]: "parse_ladder lib (ladder_json rows) = Inr rows"
  by (simp add: parse_ladder_def ladder_json_def list_validator_def mapE_map)

lemma parse_metadata_dict [simp]: "parse_metadata lib (metadata_dict md) = Inr md"
  by (simp add: parse_metadata_def metadata_dict_def model_fields_def required_def
      defaulted_def)

lemma parse_stats_dict [simp]: "parse_stats lib (stats_dict st) = Inr st"
  by (simp add: parse_stats_def stats_dict_def model_fields_def required_def)

lemma parse_bsp_dict [simp]: "parse_bsp lib (bsp_dict b) = Inr b"
  by (simp add: parse_bsp_def bsp_dict_def model_fields_def defaulted_def)

lemma parse_ex_dict [simp]: "parse_ex lib (ex_dict e) = Inr e"
  by (simp add: parse_ex_def ex_dict_def model_fields_def defaulted_def)

lemma parse_runner_dict [simp]: "parse_runner lib (runner_dict r) = Inr r"
  by (simp add: parse_runner_def runner_dict_def model_fields_def required_def defaulted_def)

lemma parse_market_dict [simp]: "parse_market lib (market_dict m) = Inr m"
  by (simp add: parse_market_def market_dict_def model_fields_def required_def defaulted_def
      list_validator_def mapE_map)












end
